theory Spec2Isabelle
  imports Main "HOL-Library.Word"
begin

unbundle bit_operations_syntax

section \<open>The JNI stub compiler of \<^verbatim>\<open>compiler/jni/quick/jni_compiler.cc\<close>\<close>

text \<open>
  The stub generator \<^verbatim>\<open>ArtJniCompileMethodInternal\<close> drives a macro assembler through a
  fixed script. The embedding keeps the script as it is written: the assembler is the list
  of the calls made on it, in emission order; the local variables of the function are a
  record that every numbered step of the source takes and returns; a \<^verbatim>\<open>CHECK\<close>, a
  \<^verbatim>\<open>DCHECK\<close> (debug builds only) and \<^verbatim>\<open>LOG(FATAL)\<close> end the run with an error value.
  The calling conventions, the entrypoint table and the build flags are declared in
  headers outside this file; they are parameters of the model.
\<close>

subsection \<open>Machine types\<close>

type_synonym size_t = "64 word"
type_synonym uint32_t = "32 word"
type_synonym cint = "32 word"

datatype PointerSize = k32 | k64

datatype InstructionSet = kNone | kArm | kThumb2 | kArm64 | kX86 | kX86_64

type_synonym reg_id = nat

text \<open>\<^verbatim>\<open>ManagedRegister\<close>: a register of the target, or the \<^verbatim>\<open>NoRegister\<close> sentinel.\<close>

datatype ManagedRegister = NoRegister | Register reg_id

fun IsNoRegister :: "ManagedRegister \<Rightarrow> bool" where
  "IsNoRegister NoRegister = True"
| "IsNoRegister (Register r) = False"

fun IsRegister :: "ManagedRegister \<Rightarrow> bool" where
  "IsRegister NoRegister = False"
| "IsRegister (Register r) = True"

datatype QuickEntrypoint =
    pJniMethodStart
  | pJniMethodStartSynchronized
  | pJniMethodEnd
  | pJniMethodEndSynchronized
  | pJniMethodEndWithReference
  | pJniMethodEndWithReferenceSynchronized
  | pJniDecodeReferenceResult
  | pReadBarrierJni
  | pTestSuspend

text \<open>
  Offsets are kept symbolic: the macro \<^verbatim>\<open>QUICK_ENTRYPOINT_OFFSET\<close> and the layout queries
  of \<^verbatim>\<open>Thread\<close>, \<^verbatim>\<open>ArtMethod\<close> and \<^verbatim>\<open>JNIEnvExt\<close> are named, not evaluated.
\<close>

datatype ThreadOffset =
    QUICK_ENTRYPOINT_OFFSET PointerSize QuickEntrypoint
  | TopOfManagedStackOffset PointerSize
  | JniEnvOffset PointerSize
  | ThreadOffsetValue int

datatype MemberOffset =
    EntryPointFromJniOffset PointerSize
  | LocalRefCookieOffset size_t
  | SegmentStateOffset size_t
  | MemberOffsetValue size_t

datatype Offset = OffsetThread ThreadOffset | OffsetMember MemberOffset

datatype JniEntrypoint = kStart | kEnd

datatype JNIMacroUnaryCondition = kZero | kNotZero

text \<open>The labels of the stub, named after the variables that own them.\<close>

datatype JNIMacroLabel =
    jclass_read_barrier_slow_path_label
  | jclass_read_barrier_return_label
  | monitor_enter_exception_slow_path_label
  | exception_slow_path_label
  | suspend_check_slow_path_label
  | suspend_check_resume_label

datatype PrimitiveType =
    kPrimNot | kPrimBoolean | kPrimByte | kPrimChar | kPrimShort
  | kPrimInt | kPrimLong | kPrimFloat | kPrimDouble | kPrimVoid

text \<open>
  Modelled from the spec: \<^verbatim>\<open>Primitive::GetType\<close> (libdexfile, not in this file), by the
  shorty codes of the glossary; every other character is a reference, as \<open>L\<close> is.
\<close>

definition GetType :: "char \<Rightarrow> PrimitiveType" where
  "GetType ch =
    (if ch = CHR ''B'' then kPrimByte
     else if ch = CHR ''C'' then kPrimChar
     else if ch = CHR ''D'' then kPrimDouble
     else if ch = CHR ''F'' then kPrimFloat
     else if ch = CHR ''I'' then kPrimInt
     else if ch = CHR ''J'' then kPrimLong
     else if ch = CHR ''S'' then kPrimShort
     else if ch = CHR ''Z'' then kPrimBoolean
     else if ch = CHR ''V'' then kPrimVoid
     else kPrimNot)"

text \<open>\<^verbatim>\<open>ArgumentLocation\<close>: a register or a frame offset, with the size in bytes.\<close>

datatype ArgumentLocation =
    ArgumentRegister ManagedRegister size_t
  | ArgumentStack size_t size_t

subsection \<open>The macro assembler as the list of calls made on it\<close>

datatype op =
    BuildFrame size_t ManagedRegister "reg_id list"
  | RemoveFrame size_t "reg_id list" bool
  | IncreaseFrameSize size_t
  | DecreaseFrameSize size_t
  | AdjustCFAOffset cint
  | TestGcMarking "JNIMacroLabel option" JNIMacroUnaryCondition
  | TestMarkBit ManagedRegister "JNIMacroLabel option" JNIMacroUnaryCondition
  | Bind "JNIMacroLabel option"
  | JumpLabel "JNIMacroLabel option"
  | StoreStackPointerToThread ThreadOffset
  | MoveArguments "ArgumentLocation list" "ArgumentLocation list" "size_t list"
  | CreateJObjectStack size_t size_t bool
  | CreateJObjectRegister ManagedRegister size_t ManagedRegister bool
  | GetCurrentThreadRegister ManagedRegister
  | GetCurrentThreadStack size_t
  | Call ManagedRegister Offset
  | Jump ManagedRegister Offset
  | CallFromThread ThreadOffset
  | ExceptionPoll "JNIMacroLabel option"
  | SuspendCheck "JNIMacroLabel option"
  | LoadRawPtrFromThread ManagedRegister ThreadOffset
  | LoadMember ManagedRegister ManagedRegister MemberOffset size_t
  | StoreMember ManagedRegister MemberOffset ManagedRegister size_t
  | Load ManagedRegister size_t size_t
  | Store size_t ManagedRegister size_t
  | StoreRawPtr size_t ManagedRegister
  | Copy size_t size_t size_t
  | Move ManagedRegister ManagedRegister size_t
  | SignExtend ManagedRegister size_t
  | ZeroExtend ManagedRegister size_t
  | DeliverPendingException
  | FinalizeCode
  | FinalizeInstructions

text \<open>
  Modelled from the spec: the CFI bookkeeping of the macro assembler (\<^verbatim>\<open>utils/\<close>, not in
  this file). \<^verbatim>\<open>BuildFrame\<close> leaves the CFA offset at the frame size it built,
  \<^verbatim>\<open>IncreaseFrameSize\<close> and \<^verbatim>\<open>DecreaseFrameSize\<close> move it by their argument,
  \<^verbatim>\<open>AdjustCFAOffset\<close> by its signed argument, and \<^verbatim>\<open>RemoveFrame\<close> restores the offset
  it found, since the code after it runs with the frame still built. The offset is a C
  \<^verbatim>\<open>int\<close>; a \<^verbatim>\<open>size_t\<close> reaches it by truncation.
\<close>

fun cfa_after :: "op \<Rightarrow> cint \<Rightarrow> cint" where
  "cfa_after (BuildFrame frame_size mr cs) cfa = ucast frame_size"
| "cfa_after (IncreaseFrameSize n) cfa = cfa + ucast n"
| "cfa_after (DecreaseFrameSize n) cfa = cfa - ucast n"
| "cfa_after (AdjustCFAOffset d) cfa = cfa + d"
| "cfa_after other cfa = cfa"

definition GetCurrentCFAOffset :: "op list \<Rightarrow> cint" where
  "GetCurrentCFAOffset ops = foldl (\<lambda>cfa x. cfa_after x cfa) 0 ops"

subsection \<open>The calling conventions\<close>

text \<open>
  A convention iterator is the displacement given to \<^verbatim>\<open>ResetIterator\<close> and the index of the
  current parameter. The conventions themselves (\<^verbatim>\<open>calling_convention.h\<close>) are records of
  their queries; a query about the current parameter takes its index, a stack offset
  also the displacement. The register of a parameter, the method register, the hidden
  argument register and the scratch registers are registers proper; a return register
  may be \<^verbatim>\<open>NoRegister\<close>.
\<close>

record ConvIterator =
  displacement :: size_t
  itr_args :: nat

definition ResetIterator :: "size_t \<Rightarrow> ConvIterator" where
  "ResetIterator d = \<lparr>displacement = d, itr_args = 0\<rparr>"

definition Next :: "ConvIterator \<Rightarrow> ConvIterator" where
  "Next it = it\<lparr>itr_args := Suc (itr_args it)\<rparr>"

record ManagedRuntimeCallingConvention =
  mr_NumArgs :: nat
  mr_ParamInRegister :: "nat \<Rightarrow> bool"
  mr_ParamRegister :: "nat \<Rightarrow> reg_id"
  mr_ParamStackOffset :: "size_t \<Rightarrow> nat \<Rightarrow> size_t"
  mr_ParamAReference :: "nat \<Rightarrow> bool"
  mr_ParamALongOrDouble :: "nat \<Rightarrow> bool"
  mr_MethodRegister :: reg_id
  mr_MethodStackOffset :: size_t
  mr_ReturnRegister :: ManagedRegister
  mr_SizeOfReturnValue :: size_t

record JniCallingConvention =
  jni_NumArgs :: nat
  jni_ParamInRegister :: "nat \<Rightarrow> bool"
  jni_ParamRegister :: "nat \<Rightarrow> reg_id"
  jni_ParamStackOffset :: "size_t \<Rightarrow> nat \<Rightarrow> size_t"
  jni_ParamSize :: "nat \<Rightarrow> size_t"
  jni_FrameSize :: size_t
  jni_OutFrameSize :: size_t
  jni_CalleeSaveRegisters :: "reg_id list"
  jni_CalleeSaveScratchRegisters :: "reg_id list"
  jni_ReturnRegister :: ManagedRegister
  jni_IsReturnAReference :: bool
  jni_SpillsReturnValue :: bool
  jni_ReturnValueSaveLocation :: "size_t \<Rightarrow> size_t"
  jni_RequiresSmallResultTypeExtension :: bool
  jni_HasSmallReturnType :: bool
  jni_GetReturnType :: PrimitiveType
  jni_SizeOfReturnValue :: size_t
  jni_UseTailCall :: bool
  jni_HiddenArgumentRegister :: reg_id
  jni_CoreSpillMask :: uint32_t
  jni_FpSpillMask :: uint32_t

definition mr_HasNext :: "ManagedRuntimeCallingConvention \<Rightarrow> ConvIterator \<Rightarrow> bool" where
  "mr_HasNext conv it = (itr_args it < mr_NumArgs conv)"

definition mr_IsCurrentParamInRegister :: "ManagedRuntimeCallingConvention \<Rightarrow> ConvIterator \<Rightarrow> bool" where
  "mr_IsCurrentParamInRegister conv it = mr_ParamInRegister conv (itr_args it)"

definition mr_CurrentParamRegister :: "ManagedRuntimeCallingConvention \<Rightarrow> ConvIterator \<Rightarrow> ManagedRegister" where
  "mr_CurrentParamRegister conv it = Register (mr_ParamRegister conv (itr_args it))"

definition mr_CurrentParamStackOffset :: "ManagedRuntimeCallingConvention \<Rightarrow> ConvIterator \<Rightarrow> size_t" where
  "mr_CurrentParamStackOffset conv it = mr_ParamStackOffset conv (displacement it) (itr_args it)"

definition mr_IsCurrentParamAReference :: "ManagedRuntimeCallingConvention \<Rightarrow> ConvIterator \<Rightarrow> bool" where
  "mr_IsCurrentParamAReference conv it = mr_ParamAReference conv (itr_args it)"

definition mr_IsCurrentParamALongOrDouble :: "ManagedRuntimeCallingConvention \<Rightarrow> ConvIterator \<Rightarrow> bool" where
  "mr_IsCurrentParamALongOrDouble conv it = mr_ParamALongOrDouble conv (itr_args it)"

definition MethodRegister :: "ManagedRuntimeCallingConvention \<Rightarrow> ManagedRegister" where
  "MethodRegister conv = Register (mr_MethodRegister conv)"

definition jni_HasNext :: "JniCallingConvention \<Rightarrow> ConvIterator \<Rightarrow> bool" where
  "jni_HasNext conv it = (itr_args it < jni_NumArgs conv)"

definition IsCurrentParamInRegister :: "JniCallingConvention \<Rightarrow> ConvIterator \<Rightarrow> bool" where
  "IsCurrentParamInRegister conv it = jni_ParamInRegister conv (itr_args it)"

text \<open>A parameter of the native convention is on the stack when it is not in a register.\<close>

definition IsCurrentParamOnStack :: "JniCallingConvention \<Rightarrow> ConvIterator \<Rightarrow> bool" where
  "IsCurrentParamOnStack conv it = (\<not> IsCurrentParamInRegister conv it)"

definition CurrentParamRegister :: "JniCallingConvention \<Rightarrow> ConvIterator \<Rightarrow> ManagedRegister" where
  "CurrentParamRegister conv it = Register (jni_ParamRegister conv (itr_args it))"

definition CurrentParamStackOffset :: "JniCallingConvention \<Rightarrow> ConvIterator \<Rightarrow> size_t" where
  "CurrentParamStackOffset conv it = jni_ParamStackOffset conv (displacement it) (itr_args it)"

definition CurrentParamSize :: "JniCallingConvention \<Rightarrow> ConvIterator \<Rightarrow> size_t" where
  "CurrentParamSize conv it = jni_ParamSize conv (itr_args it)"

definition HiddenArgumentRegister :: "JniCallingConvention \<Rightarrow> ManagedRegister" where
  "HiddenArgumentRegister conv = Register (jni_HiddenArgumentRegister conv)"

subsection \<open>What the build and the headers fix\<close>

text \<open>
  The access-flag bits (\<^verbatim>\<open>modifiers.h\<close>), the build flags, the constants and the factories
  of the conventions. \<^verbatim>\<open>core_register_with_size\<close> is the assembler's
  \<^verbatim>\<open>CoreRegisterWithSize\<close> on register numbers.
\<close>

record Environment =
  kAccNative :: uint32_t
  kAccStatic :: uint32_t
  kAccSynchronized :: uint32_t
  kAccFastNative :: uint32_t
  kAccCriticalNative :: uint32_t
  kIsDebugBuild :: bool
  kUseReadBarrier :: bool
  kUseBakerReadBarrier :: bool
  kIRTCookieSize :: size_t
  kInvalidReferenceOffset :: size_t
  DeclaringClassOffset :: size_t
  Is64BitInstructionSet :: "InstructionSet \<Rightarrow> bool"
  InstructionSetPointerSize :: "InstructionSet \<Rightarrow> PointerSize"
  ComponentSize :: "PrimitiveType \<Rightarrow> size_t"
  core_register_with_size :: "reg_id \<Rightarrow> size_t \<Rightarrow> reg_id"
  JniCallingConvention_Create ::
    "bool \<Rightarrow> bool \<Rightarrow> bool \<Rightarrow> bool \<Rightarrow> string \<Rightarrow> InstructionSet \<Rightarrow> JniCallingConvention"
  ManagedRuntimeCallingConvention_Create ::
    "bool \<Rightarrow> bool \<Rightarrow> string \<Rightarrow> InstructionSet \<Rightarrow> ManagedRuntimeCallingConvention"

definition kObjectReferenceSize :: size_t where
  "kObjectReferenceSize = 4"

fun RawPointerSize :: "PointerSize \<Rightarrow> size_t" where
  "RawPointerSize k32 = 4"
| "RawPointerSize k64 = 8"

fun CoreRegisterWithSize :: "Environment \<Rightarrow> ManagedRegister \<Rightarrow> size_t \<Rightarrow> ManagedRegister" where
  "CoreRegisterWithSize env NoRegister sz = NoRegister"
| "CoreRegisterWithSize env (Register r) sz = Register (core_register_with_size env r sz)"

text \<open>The input of one compile.\<close>

record CompileInput =
  instruction_set :: InstructionSet
  access_flags :: uint32_t
  method_idx :: uint32_t
  GetMethodShorty :: "uint32_t \<Rightarrow> string"

text \<open>The \<^verbatim>\<open>JniCompiledMethod\<close> returned; the code is the script the assembler received.\<close>

record JniCompiledMethod =
  compiled_instruction_set :: InstructionSet
  compiled_code :: "op list"
  compiled_frame_size :: size_t
  compiled_core_spill_mask :: uint32_t
  compiled_fp_spill_mask :: uint32_t

datatype Fatal = CHECK_failed string | DCHECK_failed string | LOG_FATAL string

text \<open>A fatal error keeps the script emitted before it.\<close>

type_synonym failure = "Fatal \<times> op list"

subsection \<open>The constants and the local variables of one compile\<close>

text \<open>
  What \<^verbatim>\<open>ArtJniCompileMethodInternal\<close> fixes before it emits anything: the template
  parameter, the attributes read from the access flags and the three conventions.
\<close>

record Context =
  environment :: Environment
  kPointerSize :: PointerSize
  target :: InstructionSet
  is_static :: bool
  is_synchronized :: bool
  is_fast_native :: bool
  is_critical_native :: bool
  reference_return :: bool
  main_jni_conv :: JniCallingConvention
  mr_conv :: ManagedRuntimeCallingConvention
  end_jni_conv :: JniCallingConvention

definition kRawPointerSize :: "Context \<Rightarrow> size_t" where
  "kRawPointerSize c = RawPointerSize (kPointerSize c)"

definition managed_frame_size :: "Context \<Rightarrow> size_t" where
  "managed_frame_size c = jni_FrameSize (main_jni_conv c)"

definition main_out_arg_size :: "Context \<Rightarrow> size_t" where
  "main_out_arg_size c = jni_OutFrameSize (main_jni_conv c)"

definition callee_save_regs :: "Context \<Rightarrow> reg_id list" where
  "callee_save_regs c = jni_CalleeSaveRegisters (main_jni_conv c)"

definition spill_return_value :: "Context \<Rightarrow> bool" where
  "spill_return_value c = jni_SpillsReturnValue (main_jni_conv c)"

text \<open>The label pointers; a label that is not created is the null pointer.\<close>

definition jclass_read_barrier_slow_path :: "Context \<Rightarrow> JNIMacroLabel option" where
  "jclass_read_barrier_slow_path c =
    (if kUseReadBarrier (environment c) \<and> is_static c \<and> \<not> is_critical_native c
     then Some jclass_read_barrier_slow_path_label else None)"

definition jclass_read_barrier_return :: "Context \<Rightarrow> JNIMacroLabel option" where
  "jclass_read_barrier_return c =
    (if kUseReadBarrier (environment c) \<and> is_static c \<and> \<not> is_critical_native c
     then Some jclass_read_barrier_return_label else None)"

definition monitor_enter_exception_slow_path :: "Context \<Rightarrow> JNIMacroLabel option" where
  "monitor_enter_exception_slow_path c =
    (if is_synchronized c then Some monitor_enter_exception_slow_path_label else None)"

definition exception_slow_path :: "Context \<Rightarrow> JNIMacroLabel option" where
  "exception_slow_path c =
    (if \<not> is_critical_native c then Some exception_slow_path_label else None)"

definition suspend_check_slow_path :: "Context \<Rightarrow> JNIMacroLabel option" where
  "suspend_check_slow_path c =
    (if is_fast_native c then Some suspend_check_slow_path_label else None)"

definition suspend_check_resume :: "Context \<Rightarrow> JNIMacroLabel option" where
  "suspend_check_resume c =
    (if is_fast_native c then Some suspend_check_resume_label else None)"

text \<open>
  The history of the variable \<^verbatim>\<open>method_register\<close>, kept beside the locals to state when it
  is assigned and read: an assignment with the value and the assembler call emitted last,
  a read with the value read. A read passes the value on, as an operand of an assembler
  call or into an \<^verbatim>\<open>ArgumentLocation\<close>; a test \<^verbatim>\<open>IsNoRegister()\<close> or \<^verbatim>\<open>IsRegister()\<close> inspects
  the state and is not recorded.
\<close>

datatype method_register_event =
    Assigned ManagedRegister "op option"
  | Read ManagedRegister

text \<open>
  The mutable locals, with the assembler (\<open>jni_asm\<close>, the calls made so far) and the
  iterators of the three conventions.
\<close>

record Locals =
  jni_asm :: "op list"
  mr_itr :: ConvIterator
  main_itr :: ConvIterator
  end_itr :: ConvIterator
  current_frame_size :: size_t
  current_out_arg_size :: size_t
  method_register :: ManagedRegister
  src_args :: "ArgumentLocation list"
  dest_args :: "ArgumentLocation list"
  refs :: "size_t list"
  jni_env_reg :: ManagedRegister
  saved_cookie_reg :: ManagedRegister
  callee_save_temp :: ManagedRegister
  return_save_location :: size_t
  method_register_log :: "method_register_event list"

definition initial_locals :: Locals where
  "initial_locals =
    \<lparr>jni_asm = [], mr_itr = ResetIterator 0, main_itr = ResetIterator 0,
     end_itr = ResetIterator 0, current_frame_size = 0, current_out_arg_size = 0,
     method_register = NoRegister, src_args = [], dest_args = [], refs = [],
     jni_env_reg = NoRegister, saved_cookie_reg = NoRegister,
     callee_save_temp = NoRegister, return_save_location = 0,
     method_register_log = []\<rparr>"

type_synonym action = "Locals \<Rightarrow> failure + Locals"

definition emit :: "op \<Rightarrow> action" where
  "emit x s = Inr (s\<lparr>jni_asm := jni_asm s @ [x]\<rparr>)"

definition assign :: "(Locals \<Rightarrow> Locals) \<Rightarrow> action" where
  "assign f s = Inr (f s)"

definition last_emitted :: "Locals \<Rightarrow> op option" where
  "last_emitted s = (if jni_asm s = [] then None else Some (last (jni_asm s)))"

definition assign_method_register :: "(Locals \<Rightarrow> ManagedRegister) \<Rightarrow> action" where
  "assign_method_register f s =
    Inr (s\<lparr>method_register := f s,
           method_register_log := method_register_log s @ [Assigned (f s) (last_emitted s)]\<rparr>)"

definition read_method_register :: action where
  "read_method_register s =
    Inr (s\<lparr>method_register_log := method_register_log s @ [Read (method_register s)]\<rparr>)"

definition CHECK :: "(Locals \<Rightarrow> bool) \<Rightarrow> string \<Rightarrow> action" where
  "CHECK cond what s = (if cond s then Inr s else Inl (CHECK_failed what, jni_asm s))"

definition DCHECK :: "Context \<Rightarrow> (Locals \<Rightarrow> bool) \<Rightarrow> string \<Rightarrow> action" where
  "DCHECK c cond what s =
    (if kIsDebugBuild (environment c) \<and> \<not> cond s
     then Inl (DCHECK_failed what, jni_asm s) else Inr s)"

text \<open>Statements in sequence; the first fatal error ends the run.\<close>

fun run :: "action list \<Rightarrow> action" where
  "run [] s = Inr s"
| "run (a # as) s = (case a s of Inl e \<Rightarrow> Inl e | Inr s' \<Rightarrow> run as s')"

definition when_do :: "(Locals \<Rightarrow> bool) \<Rightarrow> action list \<Rightarrow> action" where
  "when_do cond as s = (if cond s then run as s else Inr s)"

definition if_else :: "(Locals \<Rightarrow> bool) \<Rightarrow> action list \<Rightarrow> action list \<Rightarrow> action" where
  "if_else cond as bs s = (if cond s then run as s else run bs s)"

text \<open>An assembler call whose operands are read from the locals when it is made.\<close>

definition emit_of :: "(Locals \<Rightarrow> op) \<Rightarrow> action" where
  "emit_of f s = emit (f s) s"

subsection \<open>Helpers of the source\<close>

definition GetJniEntrypointThreadOffset ::
    "PointerSize \<Rightarrow> JniEntrypoint \<Rightarrow> bool \<Rightarrow> bool \<Rightarrow> ThreadOffset" where
  "GetJniEntrypointThreadOffset ps which reference_return' is_synchronized' =
    (if which = kStart then
       (if is_synchronized'
        then QUICK_ENTRYPOINT_OFFSET ps pJniMethodStartSynchronized
        else QUICK_ENTRYPOINT_OFFSET ps pJniMethodStart)
     else
       (if reference_return' then
          (if is_synchronized'
           then QUICK_ENTRYPOINT_OFFSET ps pJniMethodEndWithReferenceSynchronized
           else QUICK_ENTRYPOINT_OFFSET ps pJniMethodEndWithReference)
        else
          (if is_synchronized'
           then QUICK_ENTRYPOINT_OFFSET ps pJniMethodEndSynchronized
           else QUICK_ENTRYPOINT_OFFSET ps pJniMethodEnd)))"

definition PushLocalReferenceFrame ::
    "Context \<Rightarrow> ManagedRegister \<Rightarrow> ManagedRegister \<Rightarrow> ManagedRegister \<Rightarrow> op list" where
  "PushLocalReferenceFrame c jni_env_reg' saved_cookie_reg' temp_reg =
    [LoadMember saved_cookie_reg' jni_env_reg' (LocalRefCookieOffset (kRawPointerSize c))
       (kIRTCookieSize (environment c)),
     LoadMember temp_reg jni_env_reg' (SegmentStateOffset (kRawPointerSize c))
       (kIRTCookieSize (environment c)),
     StoreMember jni_env_reg' (LocalRefCookieOffset (kRawPointerSize c)) temp_reg
       (kIRTCookieSize (environment c))]"

definition PopLocalReferenceFrame ::
    "Context \<Rightarrow> ManagedRegister \<Rightarrow> ManagedRegister \<Rightarrow> ManagedRegister \<Rightarrow> op list" where
  "PopLocalReferenceFrame c jni_env_reg' saved_cookie_reg' temp_reg =
    [LoadMember temp_reg jni_env_reg' (LocalRefCookieOffset (kRawPointerSize c))
       (kIRTCookieSize (environment c)),
     StoreMember jni_env_reg' (SegmentStateOffset (kRawPointerSize c)) temp_reg
       (kIRTCookieSize (environment c)),
     StoreMember jni_env_reg' (LocalRefCookieOffset (kRawPointerSize c)) saved_cookie_reg'
       (kIRTCookieSize (environment c))]"

definition SetNativeParameter ::
    "JniCallingConvention \<Rightarrow> ConvIterator \<Rightarrow> ManagedRegister \<Rightarrow> op list" where
  "SetNativeParameter jni_conv it in_reg =
    (if IsCurrentParamOnStack jni_conv it
     then [StoreRawPtr (CurrentParamStackOffset jni_conv it) in_reg]
     else if CurrentParamRegister jni_conv it \<noteq> in_reg
       then [Move (CurrentParamRegister jni_conv it) in_reg (CurrentParamSize jni_conv it)]
       else [])"

definition emit_all :: "(Locals \<Rightarrow> op list) \<Rightarrow> action" where
  "emit_all f s = Inr (s\<lparr>jni_asm := jni_asm s @ f s\<rparr>)"

text \<open>Shorthands for the vector pushes and the iterator moves of the source.\<close>

definition push_src :: "(Locals \<Rightarrow> ArgumentLocation) \<Rightarrow> action" where
  "push_src f = assign (\<lambda>s. s\<lparr>src_args := src_args s @ [f s]\<rparr>)"

definition push_dest :: "(Locals \<Rightarrow> ArgumentLocation) \<Rightarrow> action" where
  "push_dest f = assign (\<lambda>s. s\<lparr>dest_args := dest_args s @ [f s]\<rparr>)"

definition push_ref :: "(Locals \<Rightarrow> size_t) \<Rightarrow> action" where
  "push_ref f = assign (\<lambda>s. s\<lparr>refs := refs s @ [f s]\<rparr>)"

definition clear_args :: action where
  "clear_args = assign (\<lambda>s. s\<lparr>src_args := [], dest_args := [], refs := []\<rparr>)"

definition mr_Reset :: "(Locals \<Rightarrow> size_t) \<Rightarrow> action" where
  "mr_Reset d = assign (\<lambda>s. s\<lparr>mr_itr := ResetIterator (d s)\<rparr>)"

definition main_Reset :: "(Locals \<Rightarrow> size_t) \<Rightarrow> action" where
  "main_Reset d = assign (\<lambda>s. s\<lparr>main_itr := ResetIterator (d s)\<rparr>)"

definition end_Reset :: "(Locals \<Rightarrow> size_t) \<Rightarrow> action" where
  "end_Reset d = assign (\<lambda>s. s\<lparr>end_itr := ResetIterator (d s)\<rparr>)"

definition mr_Next :: action where
  "mr_Next = assign (\<lambda>s. s\<lparr>mr_itr := Next (mr_itr s)\<rparr>)"

definition main_Next :: action where
  "main_Next = assign (\<lambda>s. s\<lparr>main_itr := Next (main_itr s)\<rparr>)"

definition end_Next :: action where
  "end_Next = assign (\<lambda>s. s\<lparr>end_itr := Next (end_itr s)\<rparr>)"

definition move_arguments :: action where
  "move_arguments = emit_of (\<lambda>s. MoveArguments (dest_args s) (src_args s) (refs s))"

subsection \<open>1. Build and register the native method frame\<close>

definition step_1_1 :: "Context \<Rightarrow> action" where
  "step_1_1 c = run
    [assign (\<lambda>s. s\<lparr>current_frame_size :=
        (if is_critical_native c then main_out_arg_size c else managed_frame_size c)\<rparr>),
     assign_method_register (\<lambda>s.
        if is_critical_native c then NoRegister else MethodRegister (mr_conv c)),
     read_method_register,
     emit_of (\<lambda>s. BuildFrame (current_frame_size s) (method_register s) (callee_save_regs c)),
     DCHECK c (\<lambda>s. GetCurrentCFAOffset (jni_asm s) = ucast (current_frame_size s))
       ''GetCurrentCFAOffset() == current_frame_size after BuildFrame'']"

definition step_1_2 :: "Context \<Rightarrow> action" where
  "step_1_2 c =
    when_do (\<lambda>s. kUseReadBarrier (environment c) \<and> is_static c \<and> \<not> is_critical_native c)
      [emit (TestGcMarking (jclass_read_barrier_slow_path c) kNotZero),
       emit (Bind (jclass_read_barrier_return c))]"

definition step_1_3 :: "Context \<Rightarrow> action" where
  "step_1_3 c =
    when_do (\<lambda>s. \<not> is_critical_native c)
      [emit (StoreStackPointerToThread (TopOfManagedStackOffset (kPointerSize c)))]"

subsection \<open>2. Transition out of Runnable for normal native\<close>

definition step_2_1 :: "Context \<Rightarrow> action" where
  "step_2_1 c = run
    [assign (\<lambda>s. s\<lparr>current_out_arg_size := main_out_arg_size c\<rparr>),
     if_else (\<lambda>s. is_critical_native c)
       [DCHECK c (\<lambda>s. main_out_arg_size c = current_frame_size s)
          ''main_out_arg_size == current_frame_size'']
       [emit (IncreaseFrameSize (main_out_arg_size c)),
        assign (\<lambda>s. s\<lparr>current_frame_size := current_frame_size s + main_out_arg_size c\<rparr>)]]"

text \<open>The body of the loop of step 2.2 (lines 312 to 323).\<close>

definition spill_argument :: "Context \<Rightarrow> Locals \<Rightarrow> Locals" where
  "spill_argument c s =
    (let is_reference = mr_IsCurrentParamAReference (mr_conv c) (mr_itr s);
         spill_jobject =
           (is_reference \<and> \<not> IsCurrentParamInRegister (main_jni_conv c) (main_itr s));
         src_size =
           (if \<not> is_reference \<and> mr_IsCurrentParamALongOrDouble (mr_conv c) (mr_itr s)
            then 8 else 4);
         dest_size = (if spill_jobject then kRawPointerSize c else src_size)
     in s\<lparr>src_args := src_args s @
            [if mr_IsCurrentParamInRegister (mr_conv c) (mr_itr s)
             then ArgumentRegister (mr_CurrentParamRegister (mr_conv c) (mr_itr s)) src_size
             else ArgumentStack (mr_CurrentParamStackOffset (mr_conv c) (mr_itr s)) src_size],
          dest_args := dest_args s @
            [if IsCurrentParamInRegister (main_jni_conv c) (main_itr s)
             then ArgumentStack (mr_CurrentParamStackOffset (mr_conv c) (mr_itr s)) dest_size
             else ArgumentStack (CurrentParamStackOffset (main_jni_conv c) (main_itr s)) dest_size],
          refs := refs s @
            [if spill_jobject then mr_CurrentParamStackOffset (mr_conv c) (mr_itr s)
             else kInvalidReferenceOffset (environment c)]\<rparr>)"

definition advance :: "Locals \<Rightarrow> Locals" where
  "advance s = s\<lparr>mr_itr := Next (mr_itr s), main_itr := Next (main_itr s)\<rparr>"

function spill_loop :: "Context \<Rightarrow> action" where
  "spill_loop c s =
    (if mr_HasNext (mr_conv c) (mr_itr s) then
       (if kIsDebugBuild (environment c) \<and> \<not> jni_HasNext (main_jni_conv c) (main_itr s)
        then Inl (DCHECK_failed ''main_jni_conv->HasNext()'', jni_asm s)
        else spill_loop c (advance (spill_argument c s)))
     else Inr s)"
  by pat_completeness auto
termination
  by (relation "measure (\<lambda>(c, s). mr_NumArgs (mr_conv c) - itr_args (mr_itr s))")
     (auto simp: mr_HasNext_def advance_def spill_argument_def Let_def Next_def)

declare spill_loop.simps [simp del]

definition step_2_2 :: "Context \<Rightarrow> action" where
  "step_2_2 c = run
    [clear_args,
     when_do (\<lambda>s. \<not> is_critical_native c \<and> \<not> is_fast_native c)
       [mr_Reset (\<lambda>s. current_frame_size s),
        main_Reset (\<lambda>s. main_out_arg_size c),
        main_Next,
        if_else (\<lambda>s. is_static c)
          [main_Next,
           read_method_register,
           push_src (\<lambda>s. ArgumentRegister (method_register s) (kRawPointerSize c)),
           read_method_register,
           push_dest (\<lambda>s. ArgumentRegister (method_register s) (kRawPointerSize c)),
           push_ref (\<lambda>s. kInvalidReferenceOffset (environment c))]
          [DCHECK c (\<lambda>s. mr_HasNext (mr_conv c) (mr_itr s)) ''mr_conv->HasNext()'',
           DCHECK c (\<lambda>s. jni_HasNext (main_jni_conv c) (main_itr s)) ''main_jni_conv->HasNext()'',
           DCHECK c (\<lambda>s. mr_IsCurrentParamAReference (mr_conv c) (mr_itr s))
             ''mr_conv->IsCurrentParamAReference()'',
           push_src (\<lambda>s.
             if mr_IsCurrentParamInRegister (mr_conv c) (mr_itr s)
             then ArgumentRegister (mr_CurrentParamRegister (mr_conv c) (mr_itr s))
                    kObjectReferenceSize
             else ArgumentStack (mr_CurrentParamStackOffset (mr_conv c) (mr_itr s))
                    kObjectReferenceSize),
           push_dest (\<lambda>s. ArgumentStack (mr_CurrentParamStackOffset (mr_conv c) (mr_itr s))
                    kObjectReferenceSize),
           push_ref (\<lambda>s. kInvalidReferenceOffset (environment c)),
           mr_Next,
           main_Next],
        spill_loop c,
        move_arguments]]"

definition step_2_3 :: "Context \<Rightarrow> action" where
  "step_2_3 c =
    when_do (\<lambda>s. \<not> is_critical_native c \<and> \<not> is_fast_native c)
      [main_Reset (\<lambda>s. main_out_arg_size c),
       when_do (\<lambda>s. is_synchronized c)
         [if_else (\<lambda>s. is_static c)
            [DCHECK c (\<lambda>s. DeclaringClassOffset (environment c) = 0)
               ''ArtMethod::DeclaringClassOffset() == 0'',
             read_method_register,
             emit_all (\<lambda>s. SetNativeParameter (main_jni_conv c) (main_itr s) (method_register s))]
            [mr_Reset (\<lambda>s. current_frame_size s),
             if_else (\<lambda>s. IsCurrentParamOnStack (main_jni_conv c) (main_itr s))
               [emit_of (\<lambda>s. CreateJObjectStack
                   (CurrentParamStackOffset (main_jni_conv c) (main_itr s))
                   (mr_CurrentParamStackOffset (mr_conv c) (mr_itr s)) False)]
               [emit_of (\<lambda>s. CreateJObjectRegister
                   (CurrentParamRegister (main_jni_conv c) (main_itr s))
                   (mr_CurrentParamStackOffset (mr_conv c) (mr_itr s)) NoRegister False)]],
          main_Next],
       if_else (\<lambda>s. IsCurrentParamInRegister (main_jni_conv c) (main_itr s))
         [emit_of (\<lambda>s. GetCurrentThreadRegister
             (CurrentParamRegister (main_jni_conv c) (main_itr s))),
          emit_of (\<lambda>s. Call (CurrentParamRegister (main_jni_conv c) (main_itr s))
             (OffsetThread (GetJniEntrypointThreadOffset (kPointerSize c) kStart
                (reference_return c) (is_synchronized c))))]
         [emit_of (\<lambda>s. GetCurrentThreadStack
             (CurrentParamStackOffset (main_jni_conv c) (main_itr s))),
          emit (CallFromThread (GetJniEntrypointThreadOffset (kPointerSize c) kStart
             (reference_return c) (is_synchronized c)))],
       assign_method_register (\<lambda>s. NoRegister),
       when_do (\<lambda>s. is_synchronized c)
         [emit (ExceptionPoll (monitor_enter_exception_slow_path c))]]"

subsection \<open>3. Push local reference frame\<close>

definition step_3 :: "Context \<Rightarrow> action" where
  "step_3 c = run
    [assign (\<lambda>s. s\<lparr>jni_env_reg := NoRegister, saved_cookie_reg := NoRegister,
                    callee_save_temp := NoRegister\<rparr>),
     when_do (\<lambda>s. \<not> is_critical_native c)
       [CHECK (\<lambda>s. 3 \<le> length (jni_CalleeSaveScratchRegisters (main_jni_conv c)))
          ''callee_save_scratch_regs.size() >= 3'',
        assign (\<lambda>s. s\<lparr>jni_env_reg :=
          Register (jni_CalleeSaveScratchRegisters (main_jni_conv c) ! 0)\<rparr>),
        assign (\<lambda>s. s\<lparr>saved_cookie_reg := CoreRegisterWithSize (environment c)
          (Register (jni_CalleeSaveScratchRegisters (main_jni_conv c) ! 1))
          (kIRTCookieSize (environment c))\<rparr>),
        assign (\<lambda>s. s\<lparr>callee_save_temp := CoreRegisterWithSize (environment c)
          (Register (jni_CalleeSaveScratchRegisters (main_jni_conv c) ! 2))
          (kIRTCookieSize (environment c))\<rparr>),
        emit_of (\<lambda>s. LoadRawPtrFromThread (jni_env_reg s) (JniEnvOffset (kPointerSize c))),
        emit_all (\<lambda>s. PushLocalReferenceFrame c
          (jni_env_reg s) (saved_cookie_reg s) (callee_save_temp s))]]"

subsection \<open>4. Make the main native call\<close>

definition method_offset :: "Context \<Rightarrow> Locals \<Rightarrow> size_t" where
  "method_offset c s = current_out_arg_size s + mr_MethodStackOffset (mr_conv c)"

text \<open>The body of the loop of step 4.1 (lines 473 to 490), \<^verbatim>\<open>continue\<close> included.\<close>

definition move_argument :: "Context \<Rightarrow> Locals \<Rightarrow> Locals" where
  "move_argument c s =
    (let dest_in_reg = IsCurrentParamInRegister (main_jni_conv c) (main_itr s)
     in if (\<not> is_critical_native c \<and> \<not> is_fast_native c) \<and> \<not> dest_in_reg then s
        else
          (let is_reference = mr_IsCurrentParamAReference (mr_conv c) (mr_itr s);
               src_size =
                 (if \<not> is_reference \<and> mr_IsCurrentParamALongOrDouble (mr_conv c) (mr_itr s)
                  then 8 else 4);
               dest_size = (if is_reference then kRawPointerSize c else src_size)
           in s\<lparr>src_args := src_args s @
                  [if (is_critical_native c \<or> is_fast_native c)
                      \<and> mr_IsCurrentParamInRegister (mr_conv c) (mr_itr s)
                   then ArgumentRegister (mr_CurrentParamRegister (mr_conv c) (mr_itr s)) src_size
                   else ArgumentStack (mr_CurrentParamStackOffset (mr_conv c) (mr_itr s)) src_size],
                dest_args := dest_args s @
                  [if dest_in_reg
                   then ArgumentRegister (CurrentParamRegister (main_jni_conv c) (main_itr s))
                          dest_size
                   else ArgumentStack (CurrentParamStackOffset (main_jni_conv c) (main_itr s))
                          dest_size],
                refs := refs s @
                  [if is_reference then mr_CurrentParamStackOffset (mr_conv c) (mr_itr s)
                   else kInvalidReferenceOffset (environment c)]\<rparr>))"

function move_loop :: "Context \<Rightarrow> action" where
  "move_loop c s =
    (if mr_HasNext (mr_conv c) (mr_itr s) then
       (if kIsDebugBuild (environment c) \<and> \<not> jni_HasNext (main_jni_conv c) (main_itr s)
        then Inl (DCHECK_failed ''main_jni_conv->HasNext()'', jni_asm s)
        else move_loop c (advance (move_argument c s)))
     else Inr s)"
  by pat_completeness auto
termination
  by (relation "measure (\<lambda>(c, s). mr_NumArgs (mr_conv c) - itr_args (mr_itr s))")
     (auto simp: mr_HasNext_def advance_def move_argument_def Let_def Next_def)

declare move_loop.simps [simp del]

definition step_4_1 :: "Context \<Rightarrow> action" where
  "step_4_1 c = run
    [clear_args,
     mr_Reset (\<lambda>s. current_frame_size s),
     main_Reset (\<lambda>s. main_out_arg_size c),
     if_else (\<lambda>s. is_critical_native c)
       [push_src (\<lambda>s. ArgumentRegister (MethodRegister (mr_conv c)) (kRawPointerSize c)),
        push_dest (\<lambda>s. ArgumentRegister (HiddenArgumentRegister (main_jni_conv c))
           (kRawPointerSize c)),
        push_ref (\<lambda>s. kInvalidReferenceOffset (environment c))]
       [main_Next,
        when_do (\<lambda>s. \<not> is_static c \<or> IsCurrentParamOnStack (main_jni_conv c) (main_itr s))
          [if_else (\<lambda>s. is_fast_native c)
             [DCHECK c (\<lambda>s. \<not> IsNoRegister (method_register s))
                ''!method_register.IsNoRegister()'',
              read_method_register,
              emit_of (\<lambda>s. Move
                (CoreRegisterWithSize (environment c) (callee_save_temp s) (kRawPointerSize c))
                (method_register s) (kRawPointerSize c))]
             [DCHECK c (\<lambda>s. IsNoRegister (method_register s))
                ''method_register.IsNoRegister()'',
              emit_of (\<lambda>s. Load
                (CoreRegisterWithSize (environment c) (callee_save_temp s) (kRawPointerSize c))
                (method_offset c s) (kRawPointerSize c))],
           assign_method_register (\<lambda>s.
             CoreRegisterWithSize (environment c) (callee_save_temp s) (kRawPointerSize c))],
        if_else (\<lambda>s. is_static c)
          [DCHECK c (\<lambda>s. DeclaringClassOffset (environment c) = 0)
             ''ArtMethod::DeclaringClassOffset() == 0'',
           if_else (\<lambda>s. IsNoRegister (method_register s))
             [DCHECK c (\<lambda>s. IsCurrentParamInRegister (main_jni_conv c) (main_itr s))
                ''main_jni_conv->IsCurrentParamInRegister()'',
              push_src (\<lambda>s. ArgumentStack (method_offset c s) (kRawPointerSize c))]
             [read_method_register,
              push_src (\<lambda>s. ArgumentRegister (method_register s) (kRawPointerSize c))],
           if_else (\<lambda>s. IsCurrentParamInRegister (main_jni_conv c) (main_itr s))
             [assign_method_register (\<lambda>s. CurrentParamRegister (main_jni_conv c) (main_itr s)),
              read_method_register,
              push_dest (\<lambda>s. ArgumentRegister (method_register s) (kRawPointerSize c))]
             [push_dest (\<lambda>s. ArgumentStack
                (CurrentParamStackOffset (main_jni_conv c) (main_itr s)) (kRawPointerSize c))],
           push_ref (\<lambda>s. kInvalidReferenceOffset (environment c)),
           main_Next]
          [DCHECK c (\<lambda>s. mr_HasNext (mr_conv c) (mr_itr s)) ''mr_conv->HasNext()'',
           DCHECK c (\<lambda>s. jni_HasNext (main_jni_conv c) (main_itr s)) ''main_jni_conv->HasNext()'',
           DCHECK c (\<lambda>s. mr_IsCurrentParamAReference (mr_conv c) (mr_itr s))
             ''mr_conv->IsCurrentParamAReference()'',
           push_src (\<lambda>s.
             if is_fast_native c \<and> mr_IsCurrentParamInRegister (mr_conv c) (mr_itr s)
             then ArgumentRegister (mr_CurrentParamRegister (mr_conv c) (mr_itr s))
                    kObjectReferenceSize
             else ArgumentStack (mr_CurrentParamStackOffset (mr_conv c) (mr_itr s))
                    kObjectReferenceSize),
           push_dest (\<lambda>s.
             if IsCurrentParamInRegister (main_jni_conv c) (main_itr s)
             then ArgumentRegister (CurrentParamRegister (main_jni_conv c) (main_itr s))
                    (kRawPointerSize c)
             else ArgumentStack (CurrentParamStackOffset (main_jni_conv c) (main_itr s))
                    (kRawPointerSize c)),
           push_ref (\<lambda>s. mr_CurrentParamStackOffset (mr_conv c) (mr_itr s)),
           mr_Next,
           main_Next]],
     move_loop c,
     DCHECK c (\<lambda>s. \<not> jni_HasNext (main_jni_conv c) (main_itr s)) ''!main_jni_conv->HasNext()'',
     move_arguments]"

definition step_4_2 :: "Context \<Rightarrow> action" where
  "step_4_2 c =
    when_do (\<lambda>s. \<not> is_critical_native c)
      [main_Reset (\<lambda>s. main_out_arg_size c),
       if_else (\<lambda>s. IsCurrentParamInRegister (main_jni_conv c) (main_itr s))
         [emit_of (\<lambda>s. Move (CurrentParamRegister (main_jni_conv c) (main_itr s))
            (jni_env_reg s) (kRawPointerSize c))]
         [emit_of (\<lambda>s. Store (CurrentParamStackOffset (main_jni_conv c) (main_itr s))
            (jni_env_reg s) (kRawPointerSize c))]]"

definition jni_entrypoint_offset :: "Context \<Rightarrow> Offset" where
  "jni_entrypoint_offset c =
    OffsetMember (EntryPointFromJniOffset (InstructionSetPointerSize (environment c) (target c)))"

definition step_4_3 :: "Context \<Rightarrow> action" where
  "step_4_3 c =
    if_else (\<lambda>s. is_critical_native c)
      [if_else (\<lambda>s. jni_UseTailCall (main_jni_conv c))
         [emit (Jump (HiddenArgumentRegister (main_jni_conv c)) (jni_entrypoint_offset c))]
         [emit (Call (HiddenArgumentRegister (main_jni_conv c)) (jni_entrypoint_offset c))]]
      [DCHECK c (\<lambda>s. IsRegister (method_register s)) ''method_register.IsRegister()'',
       read_method_register,
       emit_of (\<lambda>s. Call (method_register s) (jni_entrypoint_offset c)),
       assign_method_register (\<lambda>s. NoRegister)]"

definition step_4_4 :: "Context \<Rightarrow> action" where
  "step_4_4 c =
    when_do (\<lambda>s. jni_RequiresSmallResultTypeExtension (main_jni_conv c))
      [DCHECK c (\<lambda>s. jni_HasSmallReturnType (main_jni_conv c))
         ''main_jni_conv->HasSmallReturnType()'',
       CHECK (\<lambda>s. \<not> is_critical_native c \<or> \<not> jni_UseTailCall (main_jni_conv c))
         ''!is_critical_native || !main_jni_conv->UseTailCall()'',
       if_else (\<lambda>s. jni_GetReturnType (main_jni_conv c) = kPrimByte
                   \<or> jni_GetReturnType (main_jni_conv c) = kPrimShort)
         [emit (SignExtend (jni_ReturnRegister (main_jni_conv c))
            (ComponentSize (environment c) (jni_GetReturnType (main_jni_conv c))))]
         [CHECK (\<lambda>s. jni_GetReturnType (main_jni_conv c) = kPrimBoolean
                   \<or> jni_GetReturnType (main_jni_conv c) = kPrimChar)
            ''GetReturnType() == kPrimBoolean || GetReturnType() == kPrimChar'',
          emit (ZeroExtend (jni_ReturnRegister (main_jni_conv c))
            (ComponentSize (environment c) (jni_GetReturnType (main_jni_conv c))))]]"

subsection \<open>5. Transition back to Runnable\<close>

definition step_5_1 :: "Context \<Rightarrow> action" where
  "step_5_1 c = run
    [assign (\<lambda>s. s\<lparr>return_save_location :=
       (if spill_return_value c
        then jni_ReturnValueSaveLocation (main_jni_conv c) (displacement (main_itr s))
        else 0)\<rparr>),
     if_else (\<lambda>s. spill_return_value c)
       [DCHECK c (\<lambda>s. \<not> is_critical_native c) ''!is_critical_native'',
        CHECK (\<lambda>s. (ucast (ucast (return_save_location s) :: uint32_t) :: size_t)
                   < current_frame_size s)
          ''return_save_location.Uint32Value() < current_frame_size'',
        emit_of (\<lambda>s. Store (return_save_location s) (jni_ReturnRegister (main_jni_conv c))
          (jni_SizeOfReturnValue (main_jni_conv c)))]
       [when_do (\<lambda>s. (is_fast_native c \<or> is_critical_native c)
                   \<and> jni_SizeOfReturnValue (main_jni_conv c) \<noteq> 0)
          [if_else (\<lambda>s. jni_ReturnRegister (main_jni_conv c) \<noteq> mr_ReturnRegister (mr_conv c))
             [CHECK (\<lambda>s. \<not> is_critical_native c \<or> \<not> jni_UseTailCall (main_jni_conv c))
                ''!is_critical_native || !main_jni_conv->UseTailCall()'',
              emit (Move (mr_ReturnRegister (mr_conv c)) (jni_ReturnRegister (main_jni_conv c))
                (jni_SizeOfReturnValue (main_jni_conv c)))]
             [when_do (\<lambda>s. IsNoRegister (jni_ReturnRegister (main_jni_conv c))
                         \<and> IsNoRegister (mr_ReturnRegister (mr_conv c)))
                [CHECK (\<lambda>s. jni_SizeOfReturnValue (main_jni_conv c)
                           = mr_SizeOfReturnValue (mr_conv c))
                   ''main_jni_conv->SizeOfReturnValue() == mr_conv->SizeOfReturnValue()'']]]]]"

definition step_5_2 :: "Context \<Rightarrow> action" where
  "step_5_2 c =
    when_do (\<lambda>s. is_fast_native c \<and> reference_return c)
      [emit (ExceptionPoll (exception_slow_path c))]"

definition step_5_3 :: "Context \<Rightarrow> action" where
  "step_5_3 c =
    when_do (\<lambda>s. is_fast_native c \<and> reference_return c)
      [emit (SuspendCheck (suspend_check_slow_path c)),
       emit (Bind (suspend_check_resume c))]"

definition end_out_arg_size :: "Context \<Rightarrow> size_t" where
  "end_out_arg_size c = jni_OutFrameSize (end_jni_conv c)"

definition step_5_4 :: "Context \<Rightarrow> action" where
  "step_5_4 c =
    when_do (\<lambda>s. \<not> is_critical_native c)
      [when_do (\<lambda>s. current_out_arg_size s < end_out_arg_size c)
         [DCHECK c (\<lambda>s. \<not> is_fast_native c) ''!is_fast_native'',
          emit_of (\<lambda>s. IncreaseFrameSize (end_out_arg_size c - current_out_arg_size s)),
          assign (\<lambda>s. s\<lparr>current_frame_size :=
              current_frame_size s + (end_out_arg_size c - current_out_arg_size s),
            return_save_location :=
              return_save_location s + (end_out_arg_size c - current_out_arg_size s),
            current_out_arg_size := end_out_arg_size c\<rparr>)],
       end_Reset (\<lambda>s. end_out_arg_size c)]"

definition jni_end :: "Context \<Rightarrow> ThreadOffset" where
  "jni_end c =
    (if is_fast_native c
     then QUICK_ENTRYPOINT_OFFSET (kPointerSize c) pJniDecodeReferenceResult
     else GetJniEntrypointThreadOffset (kPointerSize c) kEnd
            (reference_return c) (is_synchronized c))"

definition step_5_5 :: "Context \<Rightarrow> action" where
  "step_5_5 c =
    when_do (\<lambda>s. \<not> is_critical_native c \<and> (\<not> is_fast_native c \<or> reference_return c))
      [when_do (\<lambda>s. reference_return c)
         [emit_all (\<lambda>s. SetNativeParameter (end_jni_conv c) (end_itr s)
            (jni_ReturnRegister (end_jni_conv c))),
          end_Next],
       when_do (\<lambda>s. is_synchronized c)
         [if_else (\<lambda>s. is_static c)
            [DCHECK c (\<lambda>s. DeclaringClassOffset (environment c) = 0)
               ''ArtMethod::DeclaringClassOffset() == 0'',
             if_else (\<lambda>s. IsCurrentParamOnStack (end_jni_conv c) (end_itr s))
               [emit_of (\<lambda>s. Copy (CurrentParamStackOffset (end_jni_conv c) (end_itr s))
                  (method_offset c s) (kRawPointerSize c))]
               [emit_of (\<lambda>s. Load (CurrentParamRegister (end_jni_conv c) (end_itr s))
                  (method_offset c s) (kRawPointerSize c))]]
            [mr_Reset (\<lambda>s. current_frame_size s),
             if_else (\<lambda>s. IsCurrentParamOnStack (end_jni_conv c) (end_itr s))
               [emit_of (\<lambda>s. CreateJObjectStack
                  (CurrentParamStackOffset (end_jni_conv c) (end_itr s))
                  (mr_CurrentParamStackOffset (mr_conv c) (mr_itr s)) False)]
               [emit_of (\<lambda>s. CreateJObjectRegister
                  (CurrentParamRegister (end_jni_conv c) (end_itr s))
                  (mr_CurrentParamStackOffset (mr_conv c) (mr_itr s)) NoRegister False)]],
          end_Next],
       if_else (\<lambda>s. IsCurrentParamInRegister (end_jni_conv c) (end_itr s))
         [emit_of (\<lambda>s. GetCurrentThreadRegister
            (CurrentParamRegister (end_jni_conv c) (end_itr s))),
          emit_of (\<lambda>s. Call (CurrentParamRegister (end_jni_conv c) (end_itr s))
            (OffsetThread (jni_end c)))]
         [emit_of (\<lambda>s. GetCurrentThreadStack
            (CurrentParamStackOffset (end_jni_conv c) (end_itr s))),
          emit (CallFromThread (jni_end c))]]"

definition step_5_6 :: "Context \<Rightarrow> action" where
  "step_5_6 c =
    when_do (\<lambda>s. \<not> is_critical_native c \<and> spill_return_value c)
      [emit_of (\<lambda>s. Load (mr_ReturnRegister (mr_conv c)) (return_save_location s)
         (mr_SizeOfReturnValue (mr_conv c)))]"

subsection \<open>6. Pop local reference frame\<close>

definition step_6 :: "Context \<Rightarrow> action" where
  "step_6 c =
    when_do (\<lambda>s. \<not> is_critical_native c)
      [emit_all (\<lambda>s. PopLocalReferenceFrame c
         (jni_env_reg s) (saved_cookie_reg s) (callee_save_temp s))]"

subsection \<open>7. Return from the JNI stub\<close>

definition step_7_1 :: "Context \<Rightarrow> action" where
  "step_7_1 c =
    when_do (\<lambda>s. \<not> is_critical_native c)
      [emit_of (\<lambda>s. DecreaseFrameSize (current_out_arg_size s)),
       assign (\<lambda>s. s\<lparr>current_frame_size := current_frame_size s - current_out_arg_size s\<rparr>)]"

definition step_7_2 :: "Context \<Rightarrow> action" where
  "step_7_2 c =
    when_do (\<lambda>s. \<not> is_critical_native c \<and> (\<not> is_fast_native c \<or> \<not> reference_return c))
      [emit (ExceptionPoll (exception_slow_path c))]"

definition step_7_3 :: "Context \<Rightarrow> action" where
  "step_7_3 c =
    when_do (\<lambda>s. is_fast_native c \<and> \<not> reference_return c)
      [emit (SuspendCheck (suspend_check_slow_path c)),
       emit (Bind (suspend_check_resume c))]"

definition step_7_4 :: "Context \<Rightarrow> action" where
  "step_7_4 c = run
    [DCHECK c (\<lambda>s. GetCurrentCFAOffset (jni_asm s) = ucast (current_frame_size s))
       ''GetCurrentCFAOffset() == current_frame_size before RemoveFrame'',
     when_do (\<lambda>s. \<not> is_critical_native c \<or> \<not> jni_UseTailCall (main_jni_conv c))
       [emit_of (\<lambda>s. RemoveFrame (current_frame_size s) (callee_save_regs c)
          (\<not> is_critical_native c)),
        DCHECK c (\<lambda>s. GetCurrentCFAOffset (jni_asm s) = ucast (current_frame_size s))
          ''GetCurrentCFAOffset() == current_frame_size after RemoveFrame'']]"

subsection \<open>8. Emit slow paths\<close>

definition step_8_1 :: "Context \<Rightarrow> action" where
  "step_8_1 c =
    when_do (\<lambda>s. kUseReadBarrier (environment c) \<and> is_static c \<and> \<not> is_critical_native c)
      [emit (Bind (jclass_read_barrier_slow_path c)),
       when_do (\<lambda>s. kUseBakerReadBarrier (environment c))
         [assign_method_register (\<lambda>s. MethodRegister (mr_conv c)),
          DCHECK c (\<lambda>s. DeclaringClassOffset (environment c) = 0)
            ''ArtMethod::DeclaringClassOffset() == 0'',
          read_method_register,
          emit_of (\<lambda>s. LoadMember
            (CoreRegisterWithSize (environment c)
               (Register (jni_CalleeSaveScratchRegisters (main_jni_conv c) ! 0))
               kObjectReferenceSize)
            (method_register s) (MemberOffsetValue 0) kObjectReferenceSize),
          emit (TestMarkBit
            (CoreRegisterWithSize (environment c)
               (Register (jni_CalleeSaveScratchRegisters (main_jni_conv c) ! 0))
               kObjectReferenceSize)
            (jclass_read_barrier_return c) kNotZero)],
       emit (CallFromThread (QUICK_ENTRYPOINT_OFFSET (kPointerSize c) pReadBarrierJni)),
       emit (JumpLabel (jclass_read_barrier_return c))]"

definition step_8_2 :: "Context \<Rightarrow> action" where
  "step_8_2 c =
    when_do (\<lambda>s. is_fast_native c)
      [emit (Bind (suspend_check_slow_path c)),
       when_do (\<lambda>s. reference_return c \<and> main_out_arg_size c \<noteq> 0)
         [emit (AdjustCFAOffset (ucast (main_out_arg_size c))),
          emit (DecreaseFrameSize (main_out_arg_size c))],
       emit (CallFromThread (QUICK_ENTRYPOINT_OFFSET (kPointerSize c) pTestSuspend)),
       when_do (\<lambda>s. reference_return c)
         [emit (StoreStackPointerToThread (TopOfManagedStackOffset (kPointerSize c)))],
       when_do (\<lambda>s. reference_return c \<and> main_out_arg_size c \<noteq> 0)
         [emit (IncreaseFrameSize (main_out_arg_size c)),
          emit (AdjustCFAOffset (ucast (- main_out_arg_size c)))],
       emit (JumpLabel (suspend_check_resume c))]"

text \<open>Step 8.3 up to the check before \<^verbatim>\<open>DeliverPendingException\<close>, and from there.\<close>

definition step_8_3_rewind :: "Context \<Rightarrow> action" where
  "step_8_3_rewind c =
    when_do (\<lambda>s. \<not> is_critical_native c)
      [when_do (\<lambda>s. is_synchronized c)
         [DCHECK c (\<lambda>s. \<not> is_fast_native c) ''!is_fast_native'',
          emit (Bind (monitor_enter_exception_slow_path c)),
          when_do (\<lambda>s. main_out_arg_size c \<noteq> 0)
            [emit (AdjustCFAOffset (ucast (main_out_arg_size c))),
             emit (DecreaseFrameSize (main_out_arg_size c))]],
       emit (Bind (exception_slow_path c)),
       when_do (\<lambda>s. is_fast_native c \<and> reference_return c)
         [when_do (\<lambda>s. main_out_arg_size c \<noteq> 0)
            [emit (AdjustCFAOffset (ucast (main_out_arg_size c))),
             emit (DecreaseFrameSize (main_out_arg_size c))],
          emit_all (\<lambda>s. PopLocalReferenceFrame c
            (jni_env_reg s) (saved_cookie_reg s) (callee_save_temp s))]]"

definition step_8_3_deliver :: "Context \<Rightarrow> action" where
  "step_8_3_deliver c =
    when_do (\<lambda>s. \<not> is_critical_native c)
      [DCHECK c (\<lambda>s. GetCurrentCFAOffset (jni_asm s) = ucast (current_frame_size s))
         ''GetCurrentCFAOffset() == current_frame_size before DeliverPendingException'',
       emit DeliverPendingException]"

subsection \<open>9. Finalize code generation\<close>

definition step_9 :: "Context \<Rightarrow> action" where
  "step_9 c = run [emit FinalizeCode, emit FinalizeInstructions]"

subsection \<open>The whole script\<close>

definition prologue :: "Context \<Rightarrow> action list" where
  "prologue c = [step_1_1 c]"

definition main_path :: "Context \<Rightarrow> action list" where
  "main_path c =
    [step_1_2 c, step_1_3 c, step_2_1 c, step_2_2 c, step_2_3 c, step_3 c,
     step_4_1 c, step_4_2 c, step_4_3 c, step_4_4 c,
     step_5_1 c, step_5_2 c, step_5_3 c, step_5_4 c, step_5_5 c, step_5_6 c,
     step_6 c, step_7_1 c, step_7_2 c, step_7_3 c]"

definition slow_paths :: "Context \<Rightarrow> action list" where
  "slow_paths c = [step_7_4 c, step_8_1 c, step_8_2 c, step_8_3_rewind c]"

definition script :: "Context \<Rightarrow> action list" where
  "script c = prologue c @ main_path c @ slow_paths c @ [step_8_3_deliver c, step_9 c]"

text \<open>The attribute checks of debug builds (lines 151 to 177).\<close>

definition debug_checks :: "Context \<Rightarrow> string \<Rightarrow> action" where
  "debug_checks c shorty =
    when_do (\<lambda>s. kIsDebugBuild (environment c))
      [when_do (\<lambda>s. is_fast_native c \<and> is_critical_native c)
         [(\<lambda>s. Inl (LOG_FATAL ''Method cannot be both @CriticalNative and @FastNative'',
                   jni_asm s))],
       when_do (\<lambda>s. is_critical_native c)
         [CHECK (\<lambda>s. is_static c) ''@CriticalNative functions cannot be virtual'',
          CHECK (\<lambda>s. \<not> is_synchronized c) ''@CriticalNative functions cannot be synchronized'',
          CHECK (\<lambda>s. \<not> list_ex (\<lambda>ch. GetType ch = kPrimNot) shorty)
            ''@CriticalNative methods' shorty types must not have illegal references'']]"

definition jni_end_shorty :: "bool \<Rightarrow> bool \<Rightarrow> string" where
  "jni_end_shorty reference_return' is_synchronized' =
    (if reference_return' \<and> is_synchronized' then ''IL''
     else if reference_return' then ''I''
     else ''V'')"

text \<open>Lines 122 to 215: the attributes and the conventions of the method.\<close>

definition make_context :: "Environment \<Rightarrow> PointerSize \<Rightarrow> CompileInput \<Rightarrow> Context" where
  "make_context env ps inp =
    (let is_static' = (access_flags inp AND kAccStatic env \<noteq> 0);
         is_synchronized' = (access_flags inp AND kAccSynchronized env \<noteq> 0);
         shorty = GetMethodShorty inp (method_idx inp);
         is_fast_native' = (access_flags inp AND kAccFastNative env \<noteq> 0);
         is_critical_native' = (access_flags inp AND kAccCriticalNative env \<noteq> 0);
         main_jni_conv' = JniCallingConvention_Create env is_static' is_synchronized'
           is_fast_native' is_critical_native' shorty (instruction_set inp);
         reference_return' = jni_IsReturnAReference main_jni_conv'
     in \<lparr>environment = env, kPointerSize = ps, target = instruction_set inp,
         is_static = is_static', is_synchronized = is_synchronized',
         is_fast_native = is_fast_native', is_critical_native = is_critical_native',
         reference_return = reference_return',
         main_jni_conv = main_jni_conv',
         mr_conv = ManagedRuntimeCallingConvention_Create env is_static' is_synchronized'
           shorty (instruction_set inp),
         end_jni_conv = JniCallingConvention_Create env is_static' is_synchronized'
           is_fast_native' is_critical_native'
           (jni_end_shorty reference_return' is_synchronized') (instruction_set inp)\<rparr>)"

definition is_native :: "Environment \<Rightarrow> CompileInput \<Rightarrow> bool" where
  "is_native env inp = (access_flags inp AND kAccNative env \<noteq> 0)"

definition emission :: "Environment \<Rightarrow> PointerSize \<Rightarrow> CompileInput \<Rightarrow> failure + Locals" where
  "emission env ps inp =
    run (CHECK (\<lambda>s. is_native env inp) ''is_native''
         # debug_checks (make_context env ps inp) (GetMethodShorty inp (method_idx inp))
         # script (make_context env ps inp))
      initial_locals"

definition ArtJniCompileMethodInternal ::
    "Environment \<Rightarrow> PointerSize \<Rightarrow> CompileInput \<Rightarrow> failure + JniCompiledMethod" where
  "ArtJniCompileMethodInternal env ps inp =
    (case emission env ps inp of
       Inl e \<Rightarrow> Inl e
     | Inr s \<Rightarrow>
         Inr \<lparr>compiled_instruction_set = instruction_set inp,
              compiled_code = jni_asm s,
              compiled_frame_size = managed_frame_size (make_context env ps inp),
              compiled_core_spill_mask = jni_CoreSpillMask (main_jni_conv (make_context env ps inp)),
              compiled_fp_spill_mask = jni_FpSpillMask (main_jni_conv (make_context env ps inp))\<rparr>)"

definition ArtQuickJniCompileMethod ::
    "Environment \<Rightarrow> CompileInput \<Rightarrow> failure + JniCompiledMethod" where
  "ArtQuickJniCompileMethod env inp =
    (if Is64BitInstructionSet env (instruction_set inp)
     then ArtJniCompileMethodInternal env k64 inp
     else ArtJniCompileMethodInternal env k32 inp)"

subsection \<open>Notions used in the statements\<close>

text \<open>
  \<open>after a Q s\<close>: if the action \<open>a\<close> returns from \<open>s\<close>, the locals it returns satisfy \<open>Q\<close>.
  \<open>hoare P a Q\<close> is the same from every state that satisfies \<open>P\<close>.
\<close>

definition after :: "action \<Rightarrow> (Locals \<Rightarrow> bool) \<Rightarrow> Locals \<Rightarrow> bool" where
  "after a Q s = (case a s of Inl e \<Rightarrow> True | Inr s' \<Rightarrow> Q s')"

definition hoare :: "(Locals \<Rightarrow> bool) \<Rightarrow> action \<Rightarrow> (Locals \<Rightarrow> bool) \<Rightarrow> bool" where
  "hoare P a Q = (\<forall>s. P s \<longrightarrow> after a Q s)"

text \<open>The assembler's CFA offset agrees with \<^verbatim>\<open>current_frame_size\<close>.\<close>

definition cfa_ok :: "Locals \<Rightarrow> bool" where
  "cfa_ok s = (GetCurrentCFAOffset (jni_asm s) = ucast (current_frame_size s))"

subsection \<open>Concrete conventions and inputs\<close>

text \<open>
  A 64-bit target on which the script is run: the third native parameter is passed on the
  stack, the others in registers; a critical native method is called under the tail-call
  convention.
\<close>

definition test_jni_conv :: "bool \<Rightarrow> string \<Rightarrow> JniCallingConvention" where
  "test_jni_conv critical shorty =
    \<lparr>jni_NumArgs = (if critical then length shorty - 1 else length shorty + 1),
     jni_ParamInRegister = (\<lambda>i. i \<noteq> 2), jni_ParamRegister = (\<lambda>i. i),
     jni_ParamStackOffset = (\<lambda>d i. d + 8 * of_nat i), jni_ParamSize = (\<lambda>i. 8),
     jni_FrameSize = 96, jni_OutFrameSize = 16, jni_CalleeSaveRegisters = [19, 20],
     jni_CalleeSaveScratchRegisters = [21, 22, 23],
     jni_ReturnRegister = (if hd shorty = CHR ''V'' then NoRegister else Register 0),
     jni_IsReturnAReference = (hd shorty = CHR ''L''),
     jni_SpillsReturnValue = False, jni_ReturnValueSaveLocation = (\<lambda>d. d + 8),
     jni_RequiresSmallResultTypeExtension = False, jni_HasSmallReturnType = False,
     jni_GetReturnType = GetType (hd shorty),
     jni_SizeOfReturnValue = (if hd shorty = CHR ''V'' then 0 else 8),
     jni_UseTailCall = critical,
     jni_HiddenArgumentRegister = 15, jni_CoreSpillMask = 0x180000, jni_FpSpillMask = 0\<rparr>"

definition test_mr_conv :: "string \<Rightarrow> ManagedRuntimeCallingConvention" where
  "test_mr_conv shorty =
    \<lparr>mr_NumArgs = length shorty - 1, mr_ParamInRegister = (\<lambda>i. i < 3),
     mr_ParamRegister = (\<lambda>i. Suc i),
     mr_ParamStackOffset = (\<lambda>d i. d + 8 + 4 * of_nat i),
     mr_ParamAReference = (\<lambda>i. shorty ! Suc i = CHR ''L''),
     mr_ParamALongOrDouble = (\<lambda>i. shorty ! Suc i = CHR ''J'' \<or> shorty ! Suc i = CHR ''D''),
     mr_MethodRegister = 0, mr_MethodStackOffset = 0,
     mr_ReturnRegister = (if hd shorty = CHR ''V'' then NoRegister else Register 0),
     mr_SizeOfReturnValue = (if hd shorty = CHR ''V'' then 0 else 8)\<rparr>"

definition test_env :: "bool \<Rightarrow> Environment" where
  "test_env debug =
    \<lparr>kAccNative = 0x100, kAccStatic = 0x8, kAccSynchronized = 0x20,
     kAccFastNative = 0x80000, kAccCriticalNative = 0x100000,
     kIsDebugBuild = debug, kUseReadBarrier = True, kUseBakerReadBarrier = True,
     kIRTCookieSize = 4, kInvalidReferenceOffset = 0, DeclaringClassOffset = 0,
     Is64BitInstructionSet = (\<lambda>i. i = kArm64 \<or> i = kX86_64),
     InstructionSetPointerSize = (\<lambda>i. if i = kArm64 \<or> i = kX86_64 then k64 else k32),
     ComponentSize = (\<lambda>t. 4), core_register_with_size = (\<lambda>r sz. r),
     JniCallingConvention_Create = (\<lambda>st sy fa cr sh i. test_jni_conv cr sh),
     ManagedRuntimeCallingConvention_Create = (\<lambda>st sy sh i. test_mr_conv sh)\<rparr>"

definition test_input :: "uint32_t \<Rightarrow> string \<Rightarrow> CompileInput" where
  "test_input flags shorty =
    \<lparr>instruction_set = kArm64, access_flags = flags, method_idx = 7,
     GetMethodShorty = (\<lambda>i. shorty)\<rparr>"

text \<open>
  What the two argument loops leave alone: they only move the iterators of \<open>mr_conv\<close> and
  \<open>main_jni_conv\<close> and push onto the three vectors. A shuffle step as a whole (2.2, 4.1)
  also emits, and 4.1 assigns \<open>method_register\<close>.
\<close>

definition loop_frame :: "Locals \<Rightarrow> Locals \<Rightarrow> bool" where
  "loop_frame s s' =
    (jni_asm s' = jni_asm s \<and> end_itr s' = end_itr s
     \<and> current_frame_size s' = current_frame_size s
     \<and> current_out_arg_size s' = current_out_arg_size s
     \<and> method_register s' = method_register s
     \<and> jni_env_reg s' = jni_env_reg s \<and> saved_cookie_reg s' = saved_cookie_reg s
     \<and> callee_save_temp s' = callee_save_temp s
     \<and> return_save_location s' = return_save_location s
     \<and> method_register_log s' = method_register_log s)"

definition shuffle_frame :: "Locals \<Rightarrow> Locals \<Rightarrow> bool" where
  "shuffle_frame s s' =
    (end_itr s' = end_itr s
     \<and> current_frame_size s' = current_frame_size s
     \<and> current_out_arg_size s' = current_out_arg_size s
     \<and> jni_env_reg s' = jni_env_reg s \<and> saved_cookie_reg s' = saved_cookie_reg s
     \<and> callee_save_temp s' = callee_save_temp s
     \<and> return_save_location s' = return_save_location s)"

text \<open>
  The iterator of \<open>main_jni_conv\<close> on the \<^verbatim>\<open>jclass\<close>/\<^verbatim>\<open>this\<close> parameter, after \<^verbatim>\<open>JNIEnv*\<close>, and
  the register \<^verbatim>\<open>new_method_reg\<close> of step 4.1.
\<close>

definition main_arg1 :: "Context \<Rightarrow> ConvIterator" where
  "main_arg1 c = Next (ResetIterator (main_out_arg_size c))"

definition new_method_reg :: "Context \<Rightarrow> Locals \<Rightarrow> ManagedRegister" where
  "new_method_reg c s = CoreRegisterWithSize (environment c) (callee_save_temp s) (kRawPointerSize c)"

text \<open>
  \<open>emitted_only A a\<close>: the action only appends to the script, and what it appends
  satisfies \<open>A\<close>.
\<close>

definition emitted_only :: "(op \<Rightarrow> bool) \<Rightarrow> action \<Rightarrow> bool" where
  "emitted_only A a =
    (\<forall>s s'. a s = Inr s' \<longrightarrow> (\<exists>E. jni_asm s' = jni_asm s @ E \<and> list_all A E))"

text \<open>Kinds of assembler calls.\<close>

definition is_shuffle_op :: "op \<Rightarrow> bool" where
  "is_shuffle_op x =
    (case x of MoveArguments d s r \<Rightarrow> True | Move d s n \<Rightarrow> True | Load d off n \<Rightarrow> True
     | _ \<Rightarrow> False)"

definition is_BuildFrame :: "op \<Rightarrow> bool" where
  "is_BuildFrame x = (case x of BuildFrame n r cs \<Rightarrow> True | _ \<Rightarrow> False)"

definition called_entrypoint :: "op \<Rightarrow> QuickEntrypoint option" where
  "called_entrypoint x =
    (case x of
       Call r off \<Rightarrow>
         (case off of
            OffsetThread t \<Rightarrow>
              (case t of QUICK_ENTRYPOINT_OFFSET ps e \<Rightarrow> Some e | _ \<Rightarrow> None)
          | _ \<Rightarrow> None)
     | CallFromThread t \<Rightarrow>
         (case t of QUICK_ENTRYPOINT_OFFSET ps e \<Rightarrow> Some e | _ \<Rightarrow> None)
     | _ \<Rightarrow> None)"

definition is_JniMethodStart :: "QuickEntrypoint \<Rightarrow> bool" where
  "is_JniMethodStart e = (e = pJniMethodStart \<or> e = pJniMethodStartSynchronized)"

definition is_JniMethodEnd :: "QuickEntrypoint \<Rightarrow> bool" where
  "is_JniMethodEnd e =
    (e = pJniMethodEnd \<or> e = pJniMethodEndSynchronized
     \<or> e = pJniMethodEndWithReference \<or> e = pJniMethodEndWithReferenceSynchronized)"

definition is_local_reference_frame_op :: "op \<Rightarrow> bool" where
  "is_local_reference_frame_op x =
    (case x of
       LoadMember d b off n \<Rightarrow>
         (case off of LocalRefCookieOffset p \<Rightarrow> True | SegmentStateOffset p \<Rightarrow> True
          | _ \<Rightarrow> False)
     | StoreMember b off r n \<Rightarrow>
         (case off of LocalRefCookieOffset p \<Rightarrow> True | SegmentStateOffset p \<Rightarrow> True
          | _ \<Rightarrow> False)
     | _ \<Rightarrow> False)"

text \<open>
  What a critical native stub must not contain: a \<^verbatim>\<open>CreateJObject\<close>, a call of a
  \<^verbatim>\<open>JniMethodStart\<close> or \<^verbatim>\<open>JniMethodEnd\<close> entrypoint, the load of the JNI environment, an
  instruction of the local reference frame push or pop, an \<^verbatim>\<open>ExceptionPoll\<close>.
\<close>

definition critical_native_excluded :: "op \<Rightarrow> bool" where
  "critical_native_excluded x =
    ((case x of
        CreateJObjectStack out_off ref_off null_allowed \<Rightarrow> True
      | CreateJObjectRegister out_reg ref_off in_reg null_allowed \<Rightarrow> True
      | LoadRawPtrFromThread r t \<Rightarrow> (case t of JniEnvOffset ps \<Rightarrow> True | _ \<Rightarrow> False)
      | ExceptionPoll l \<Rightarrow> True
      | _ \<Rightarrow> False)
     \<or> is_local_reference_frame_op x
     \<or> (case called_entrypoint x of
           Some e \<Rightarrow> is_JniMethodStart e \<or> is_JniMethodEnd e
         | None \<Rightarrow> False))"

text \<open>
  The runtime calls that end the method: a call of a \<^verbatim>\<open>JniMethodEnd\<close> entrypoint or of
  \<^verbatim>\<open>pJniDecodeReferenceResult\<close>, in the order of the script.
\<close>

definition is_end_of_method_entrypoint :: "QuickEntrypoint \<Rightarrow> bool" where
  "is_end_of_method_entrypoint e = (is_JniMethodEnd e \<or> e = pJniDecodeReferenceResult)"

definition end_of_method_call :: "op \<Rightarrow> QuickEntrypoint option" where
  "end_of_method_call x =
    (case called_entrypoint x of
       Some e \<Rightarrow> if is_end_of_method_entrypoint e then Some e else None
     | None \<Rightarrow> None)"

definition end_of_method_calls :: "op list \<Rightarrow> QuickEntrypoint list" where
  "end_of_method_calls ops = List.map_filter end_of_method_call ops"

text \<open>The entrypoint that \<open>jni_end\<close> of step 5.5 names.\<close>

definition jni_end_entrypoint :: "Context \<Rightarrow> QuickEntrypoint" where
  "jni_end_entrypoint c =
    (if is_fast_native c then pJniDecodeReferenceResult
     else if reference_return c
       then (if is_synchronized c then pJniMethodEndWithReferenceSynchronized
             else pJniMethodEndWithReference)
       else (if is_synchronized c then pJniMethodEndSynchronized else pJniMethodEnd))"

text \<open>
  The three callee-save scratch registers of steps 3 and 6, and the two sequences that
  \<^verbatim>\<open>PushLocalReferenceFrame\<close> and \<^verbatim>\<open>PopLocalReferenceFrame\<close> emit on them.
\<close>

definition scratch_env_reg :: "Context \<Rightarrow> ManagedRegister" where
  "scratch_env_reg c = Register (jni_CalleeSaveScratchRegisters (main_jni_conv c) ! 0)"

definition scratch_cookie_reg :: "Context \<Rightarrow> ManagedRegister" where
  "scratch_cookie_reg c =
    CoreRegisterWithSize (environment c)
      (Register (jni_CalleeSaveScratchRegisters (main_jni_conv c) ! 1))
      (kIRTCookieSize (environment c))"

definition scratch_temp_reg :: "Context \<Rightarrow> ManagedRegister" where
  "scratch_temp_reg c =
    CoreRegisterWithSize (environment c)
      (Register (jni_CalleeSaveScratchRegisters (main_jni_conv c) ! 2))
      (kIRTCookieSize (environment c))"

definition local_reference_frame_push :: "Context \<Rightarrow> op list" where
  "local_reference_frame_push c =
    PushLocalReferenceFrame c (scratch_env_reg c) (scratch_cookie_reg c) (scratch_temp_reg c)"

definition local_reference_frame_pop :: "Context \<Rightarrow> op list" where
  "local_reference_frame_pop c =
    PopLocalReferenceFrame c (scratch_env_reg c) (scratch_cookie_reg c) (scratch_temp_reg c)"

text \<open>The script contains the sequence, as consecutive calls.\<close>

definition contains_sequence :: "op list \<Rightarrow> op list \<Rightarrow> bool" where
  "contains_sequence ops code = (\<exists>before rest. code = before @ ops @ rest)"

definition scratch_regs_set :: "Context \<Rightarrow> Locals \<Rightarrow> bool" where
  "scratch_regs_set c s =
    (jni_env_reg s = scratch_env_reg c \<and> saved_cookie_reg s = scratch_cookie_reg c
     \<and> callee_save_temp s = scratch_temp_reg c)"

text \<open>
  \<^verbatim>\<open>RemoveFrame\<close>, and a \<^verbatim>\<open>Call\<close> or \<^verbatim>\<open>Jump\<close> through \<^verbatim>\<open>ArtMethod::EntryPointFromJniOffset\<close>,
  which is how the stub reaches the native code.
\<close>

definition is_RemoveFrame :: "op \<Rightarrow> bool" where
  "is_RemoveFrame x = (case x of RemoveFrame n cs may_suspend \<Rightarrow> True | _ \<Rightarrow> False)"

definition is_EntryPointFromJni :: "Offset \<Rightarrow> bool" where
  "is_EntryPointFromJni off =
    (case off of
       OffsetMember mo \<Rightarrow> (case mo of EntryPointFromJniOffset p \<Rightarrow> True | _ \<Rightarrow> False)
     | _ \<Rightarrow> False)"

definition is_native_entry :: "op \<Rightarrow> bool" where
  "is_native_entry x =
    (case x of Call r off \<Rightarrow> is_EntryPointFromJni off
     | Jump r off \<Rightarrow> is_EntryPointFromJni off
     | _ \<Rightarrow> False)"

text \<open>
  The value of \<^verbatim>\<open>current_frame_size\<close> outside and inside the part of the script that runs
  with the out args on the stack.
\<close>

definition frame_at_rest :: "Context \<Rightarrow> Locals \<Rightarrow> bool" where
  "frame_at_rest c s =
    (current_frame_size s =
       (if is_critical_native c then main_out_arg_size c else managed_frame_size c))"

definition frame_with_out_args :: "Context \<Rightarrow> Locals \<Rightarrow> bool" where
  "frame_with_out_args c s =
    (current_frame_size s =
       (if is_critical_native c then main_out_arg_size c
        else managed_frame_size c + current_out_arg_size s))"










text \<open>
  The liveness of \<^verbatim>\<open>method_register\<close> along its history: \<open>walk\<close> returns the value it holds at
  the end (a register: Live; \<^verbatim>\<open>NoRegister\<close>: Clobbered, empty) and, for every assignment that
  takes it from Live to Clobbered, the assembler call emitted last before that assignment.
\<close>

definition walk_step ::
    "ManagedRegister \<times> op option list \<Rightarrow> method_register_event \<Rightarrow> ManagedRegister \<times> op option list" where
  "walk_step st e =
    (case e of
       Assigned v after_call \<Rightarrow>
         (v, snd st @ (if IsRegister (fst st) \<and> IsNoRegister v then [after_call] else []))
     | Read v \<Rightarrow> st)"

definition walk :: "method_register_event list \<Rightarrow> ManagedRegister \<times> op option list" where
  "walk log = foldl walk_step (NoRegister, []) log"

definition clobbered_after :: "method_register_event list \<Rightarrow> op option list" where
  "clobbered_after log = snd (walk log)"

text \<open>Every read in the history is a read of a register.\<close>

definition read_while_live :: "method_register_event \<Rightarrow> bool" where
  "read_while_live e = (case e of Read v \<Rightarrow> IsRegister v | Assigned v after_call \<Rightarrow> True)"

definition reads_while_live :: "method_register_event list \<Rightarrow> bool" where
  "reads_while_live log = list_all read_while_live log"

text \<open>The calls of a \<^verbatim>\<open>JniMethodStart\<close> entrypoint and of the native code.\<close>

definition is_JniMethodStart_call :: "op \<Rightarrow> bool" where
  "is_JniMethodStart_call x =
    (case called_entrypoint x of Some e \<Rightarrow> is_JniMethodStart e | None \<Rightarrow> False)"

definition clobbering_call :: "op \<Rightarrow> bool" where
  "clobbering_call x = (is_JniMethodStart_call x \<or> is_native_entry x)"

text \<open>
  The state machine of \<^verbatim>\<open>method_register\<close> as the specification words it: read only while
  Live, and taken from Live to Clobbered exactly at the \<^verbatim>\<open>JniMethodStart\<close> call and at the main
  native call, that is, right after each of them and nowhere else.
\<close>

definition method_register_claim :: "Locals \<Rightarrow> bool" where
  "method_register_claim s =
    (reads_while_live (method_register_log s)
     \<and> clobbered_after (method_register_log s)
         = map Some (filter clobbering_call (jni_asm s)))"

text \<open>Assertions on the locals between the steps.\<close>

definition history_ok :: "Locals \<Rightarrow> bool" where
  "history_ok s =
    (walk (method_register_log s)
       = (method_register s, map Some (filter clobbering_call (jni_asm s)))
     \<and> reads_while_live (method_register_log s))"

definition never_live :: "Locals \<Rightarrow> bool" where
  "never_live s =
    (method_register s = NoRegister
     \<and> method_register_log s = [Assigned NoRegister None, Read NoRegister])"

definition live_in :: "Context \<Rightarrow> Locals \<Rightarrow> bool" where
  "live_in c s = (history_ok s \<and> method_register s = MethodRegister (mr_conv c))"

definition live_if_fast :: "Context \<Rightarrow> Locals \<Rightarrow> bool" where
  "live_if_fast c s =
    (history_ok s
     \<and> method_register s = (if is_fast_native c then MethodRegister (mr_conv c) else NoRegister))"

definition live_if_fast_temp :: "Context \<Rightarrow> Locals \<Rightarrow> bool" where
  "live_if_fast_temp c s = (live_if_fast c s \<and> IsRegister (callee_save_temp s))"

definition live_again :: "Locals \<Rightarrow> bool" where
  "live_again s = (history_ok s \<and> IsRegister (method_register s))"

section \<open>Properties of the script\<close>

subsection \<open>Reasoning about actions\<close>

named_theorems after_simps

lemma after_emit [after_simps]: "after (emit x) Q s = Q (s\<lparr>jni_asm := jni_asm s @ [x]\<rparr>)"
  by (simp add: after_def emit_def)

lemma after_emit_of [after_simps]:
  "after (emit_of f) Q s = Q (s\<lparr>jni_asm := jni_asm s @ [f s]\<rparr>)"
  by (simp add: after_def emit_of_def emit_def)

lemma after_emit_all [after_simps]:
  "after (emit_all f) Q s = Q (s\<lparr>jni_asm := jni_asm s @ f s\<rparr>)"
  by (simp add: after_def emit_all_def)

lemma after_assign [after_simps]: "after (assign f) Q s = Q (f s)"
  by (simp add: after_def assign_def)

lemma after_CHECK [after_simps]: "after (CHECK cond what) Q s = (cond s \<longrightarrow> Q s)"
  by (simp add: after_def CHECK_def)

lemma after_DCHECK [after_simps]:
  "after (DCHECK c cond what) Q s = ((kIsDebugBuild (environment c) \<longrightarrow> cond s) \<longrightarrow> Q s)"
  by (auto simp add: after_def DCHECK_def)

lemma after_run_Nil [after_simps]: "after (run []) Q s = Q s"
  by (simp add: after_def)

lemma after_run_Cons [after_simps]: "after (run (a # as)) Q s = after a (after (run as) Q) s"
  by (simp add: after_def split: sum.splits)

lemma after_when_do [after_simps]:
  "after (when_do cond as) Q s = (if cond s then after (run as) Q s else Q s)"
  by (simp add: after_def when_do_def)

lemma after_if_else [after_simps]:
  "after (if_else cond as bs) Q s = (if cond s then after (run as) Q s else after (run bs) Q s)"
  by (simp add: after_def if_else_def)

lemma after_fatal [after_simps]: "after (\<lambda>s. Inl (f s)) Q s = True"
  by (simp add: after_def)

lemma after_assign_method_register [after_simps]:
  "after (assign_method_register f) Q s =
     Q (s\<lparr>method_register := f s,
          method_register_log := method_register_log s @ [Assigned (f s) (last_emitted s)]\<rparr>)"
  by (simp add: after_def assign_method_register_def)

lemma after_read_method_register [after_simps]:
  "after read_method_register Q s =
     Q (s\<lparr>method_register_log := method_register_log s @ [Read (method_register s)]\<rparr>)"
  by (simp add: after_def read_method_register_def)

lemmas shorthand_defs = push_src_def push_dest_def push_ref_def clear_args_def mr_Reset_def
  main_Reset_def end_Reset_def mr_Next_def main_Next_def end_Next_def move_arguments_def

lemma afterD: "after a Q s \<Longrightarrow> a s = Inr s' \<Longrightarrow> Q s'"
  by (simp add: after_def)

lemma hoareD: "hoare P a Q \<Longrightarrow> P s \<Longrightarrow> a s = Inr s' \<Longrightarrow> Q s'"
  using afterD [of a Q s s'] by (simp add: hoare_def)

lemma hoare_run_Nil: "hoare P (run []) P"
  by (simp add: hoare_def after_def)

lemma hoare_run_Cons: "hoare P a R \<Longrightarrow> hoare R (run as) Q \<Longrightarrow> hoare P (run (a # as)) Q"
  by (auto simp: hoare_def after_def split: sum.splits)

lemma run_append:
  "run (as @ bs) s = (case run as s of Inl e \<Rightarrow> Inl e | Inr s' \<Rightarrow> run bs s')"
  by (induction as arbitrary: s) (auto split: sum.splits)

lemma hoare_run_append:
  "hoare P (run as) R \<Longrightarrow> hoare R (run bs) Q \<Longrightarrow> hoare P (run (as @ bs)) Q"
  by (auto simp: hoare_def after_def run_append split: sum.splits)

lemma hoare_invariant:
  "(\<And>a. a \<in> set as \<Longrightarrow> hoare I a I) \<Longrightarrow> hoare I (run as) I"
proof (induction as)
  case Nil
  show ?case by (rule hoare_run_Nil)
next
  case (Cons a as)
  show ?case
    by (rule hoare_run_Cons [where R = I]) (simp_all add: Cons)
qed

lemma hoare_weaken:
  "hoare P a Q \<Longrightarrow> (\<And>s. P' s \<Longrightarrow> P s) \<Longrightarrow> (\<And>s. Q s \<Longrightarrow> Q' s) \<Longrightarrow> hoare P' a Q'"
  by (auto simp: hoare_def after_def split: sum.splits)

text \<open>The checks before the script leave the locals as they are.\<close>

lemma debug_checks_same: "debug_checks c shorty s = Inr s' \<Longrightarrow> s' = s"
  by (auto simp: debug_checks_def when_do_def CHECK_def split: if_splits sum.splits)

lemma emission_script:
  assumes "emission env ps inp = Inr s"
  shows "run (script (make_context env ps inp)) initial_locals = Inr s"
    and "is_native env inp"
proof -
  from assms have chk: "CHECK (\<lambda>s. is_native env inp) ''is_native'' initial_locals = Inr initial_locals"
    by (auto simp: emission_def CHECK_def split: sum.splits if_splits)
  then show "is_native env inp"
    by (simp add: CHECK_def split: if_splits)
  from assms chk obtain s1 where
    dbg: "debug_checks (make_context env ps inp) (GetMethodShorty inp (method_idx inp))
            initial_locals = Inr s1"
    and rest: "run (script (make_context env ps inp)) s1 = Inr s"
    by (auto simp: emission_def split: sum.splits)
  from debug_checks_same [OF dbg] rest
  show "run (script (make_context env ps inp)) initial_locals = Inr s" by simp
qed

lemma compiled_emission:
  "ArtJniCompileMethodInternal env ps inp = Inr m \<Longrightarrow>
   \<exists>s. emission env ps inp = Inr s \<and> compiled_code m = jni_asm s"
  by (auto simp: ArtJniCompileMethodInternal_def split: sum.splits)

subsection \<open>The shorty of the end convention\<close>

text \<open>
  C7. The convention for the \<^verbatim>\<open>JniMethodEnd\<close> call is created with the shorty \<open>IL\<close> when the
  method returns a reference and is synchronized, \<open>I\<close> when it returns a reference and is
  not synchronized, and \<open>V\<close> otherwise, synchronized or not.
\<close>

theorem end_convention_shorty:
  "end_jni_conv (make_context env ps inp) =
     JniCallingConvention_Create env
       (is_static (make_context env ps inp)) (is_synchronized (make_context env ps inp))
       (is_fast_native (make_context env ps inp)) (is_critical_native (make_context env ps inp))
       (if reference_return (make_context env ps inp)
        then (if is_synchronized (make_context env ps inp) then ''IL'' else ''I'')
        else ''V'')
       (instruction_set inp)"
  by (simp add: make_context_def Let_def jni_end_shorty_def)

subsection \<open>The native bit\<close>

text \<open>
  C10. When the access flags lack \<^verbatim>\<open>kAccNative\<close>, the compile ends in the fatal
  \<^verbatim>\<open>CHECK(is_native)\<close> whatever the build mode, with nothing emitted; the debug-only
  attribute checks are not reached.
\<close>

theorem not_native_is_fatal:
  "access_flags inp AND kAccNative env = 0 \<Longrightarrow>
   ArtJniCompileMethodInternal env ps inp = Inl (CHECK_failed ''is_native'', [])"
  by (simp add: ArtJniCompileMethodInternal_def emission_def is_native_def CHECK_def
      initial_locals_def)

theorem not_native_is_fatal_witness:
  "access_flags (test_input 0x8 ''V'') AND kAccNative (test_env False) = 0
   \<and> kIsDebugBuild (test_env False) = False
   \<and> ArtJniCompileMethodInternal (test_env False) k64 (test_input 0x8 ''V'')
       = Inl (CHECK_failed ''is_native'', [])"
proof -
  have h: "access_flags (test_input 0x8 ''V'') AND kAccNative (test_env False) = 0"
    by (simp add: test_input_def test_env_def)
  show ?thesis
    using h not_native_is_fatal [OF h, of k64]
    by (simp add: test_env_def)
qed

subsection \<open>The argument loops and the shuffle steps\<close>

lemma loop_frame_refl: "loop_frame s s"
  by (simp add: loop_frame_def)

lemma loop_frame_trans: "loop_frame s s1 \<Longrightarrow> loop_frame s1 s2 \<Longrightarrow> loop_frame s s2"
  by (simp add: loop_frame_def)

lemma spill_loop_frame: "spill_loop c s = Inr s' \<Longrightarrow> loop_frame s s'"
proof (induction c s rule: spill_loop.induct)
  case (1 c s)
  show ?case
  proof (cases "mr_HasNext (mr_conv c) (mr_itr s)")
    case False
    with "1.prems" have "s' = s" by (simp add: spill_loop.simps [of c s])
    then show ?thesis by (simp add: loop_frame_refl)
  next
    case True
    with "1.prems" have ok: "\<not> (kIsDebugBuild (environment c) \<and> \<not> jni_HasNext (main_jni_conv c) (main_itr s))"
      and rec: "spill_loop c (advance (spill_argument c s)) = Inr s'"
      by (auto simp: spill_loop.simps [of c s] split: if_splits)
    have "loop_frame s (advance (spill_argument c s))"
      by (simp add: loop_frame_def advance_def spill_argument_def Let_def)
    with "1.IH" [OF True ok rec] show ?thesis
      by (rule loop_frame_trans [rotated])
  qed
qed

lemma move_loop_frame: "move_loop c s = Inr s' \<Longrightarrow> loop_frame s s'"
proof (induction c s rule: move_loop.induct)
  case (1 c s)
  show ?case
  proof (cases "mr_HasNext (mr_conv c) (mr_itr s)")
    case False
    with "1.prems" have "s' = s" by (simp add: move_loop.simps [of c s])
    then show ?thesis by (simp add: loop_frame_refl)
  next
    case True
    with "1.prems" have ok: "\<not> (kIsDebugBuild (environment c) \<and> \<not> jni_HasNext (main_jni_conv c) (main_itr s))"
      and rec: "move_loop c (advance (move_argument c s)) = Inr s'"
      by (auto simp: move_loop.simps [of c s] split: if_splits)
    have "loop_frame s (advance (move_argument c s))"
      by (simp add: loop_frame_def advance_def move_argument_def Let_def)
    with "1.IH" [OF True ok rec] show ?thesis
      by (rule loop_frame_trans [rotated])
  qed
qed

lemma after_spill_loop: "(\<And>s'. loop_frame s s' \<Longrightarrow> Q s') \<Longrightarrow> after (spill_loop c) Q s"
  unfolding after_def using spill_loop_frame [of c s] by (auto split: sum.splits)

lemma after_move_loop: "(\<And>s'. loop_frame s s' \<Longrightarrow> Q s') \<Longrightarrow> after (move_loop c) Q s"
  unfolding after_def using move_loop_frame [of c s] by (auto split: sum.splits)

lemma step_2_2_after:
  "after (step_2_2 c)
     (\<lambda>s'. shuffle_frame s s' \<and> method_register s' = method_register s
        \<and> jni_asm s' = jni_asm s @
            (if \<not> is_critical_native c \<and> \<not> is_fast_native c
             then [MoveArguments (dest_args s') (src_args s') (refs s')] else [])) s"
  apply (simp add: step_2_2_def after_simps shorthand_defs shuffle_frame_def)
  apply (intro conjI impI after_spill_loop)
  apply (simp_all add: after_simps shorthand_defs loop_frame_def)
  done

lemma step_4_1_after:
  "after (step_4_1 c)
     (\<lambda>s'. shuffle_frame s s'
        \<and> method_register s' =
            (if is_critical_native c then method_register s
             else if is_static c \<and> IsCurrentParamInRegister (main_jni_conv c) (main_arg1 c)
               then CurrentParamRegister (main_jni_conv c) (main_arg1 c)
               else new_method_reg c s)
        \<and> jni_asm s' = jni_asm s @
            (if \<not> is_critical_native c
                \<and> (\<not> is_static c \<or> IsCurrentParamOnStack (main_jni_conv c) (main_arg1 c))
             then [if is_fast_native c
                   then Move (new_method_reg c s) (method_register s) (kRawPointerSize c)
                   else Load (new_method_reg c s) (method_offset c s) (kRawPointerSize c)]
             else [])
            @ [MoveArguments (dest_args s') (src_args s') (refs s')]) s"
  apply (simp add: step_4_1_def after_simps shorthand_defs shuffle_frame_def)
  apply (intro conjI impI after_move_loop)
  apply (simp_all add: after_simps shorthand_defs loop_frame_def main_arg1_def new_method_reg_def
      IsCurrentParamOnStack_def method_offset_def)
  done

subsection \<open>The CFA offset follows \<^verbatim>\<open>current_frame_size\<close>\<close>

lemma cfa_append:
  "GetCurrentCFAOffset (ops @ xs) = foldl (\<lambda>cfa x. cfa_after x cfa) (GetCurrentCFAOffset ops) xs"
  by (simp add: GetCurrentCFAOffset_def)

lemma mod_64_32: "(k :: int) mod 18446744073709551616 mod 4294967296 = k mod 4294967296"
  by (rule mod_mod_cancel) simp

lemma mod_64_32_add:
  "((x :: int) mod 18446744073709551616 + y mod 18446744073709551616) mod 4294967296
     = (x + y) mod 4294967296"
  by (metis mod_add_eq mod_64_32)

lemma mod_64_32_diff:
  "((x :: int) mod 18446744073709551616 - y mod 18446744073709551616) mod 4294967296
     = (x - y) mod 4294967296"
  by (metis mod_diff_eq mod_64_32)

lemma ucast_plus: "(ucast (a + b :: 64 word) :: 32 word) = ucast a + ucast b"
  by transfer (simp add: take_bit_eq_mod mod_64_32 mod_64_32_add)

lemma ucast_minus: "(ucast (a - b :: 64 word) :: 32 word) = ucast a - ucast b"
  by transfer (simp add: take_bit_eq_mod mod_64_32 mod_64_32_diff)

lemma ucast_uminus: "(ucast (- a :: 64 word) :: 32 word) = - ucast a"
  using ucast_minus [of 0 a] by simp

lemmas cfa_simps = hoare_def after_simps shorthand_defs cfa_ok_def cfa_append
  ucast_plus ucast_minus ucast_uminus SetNativeParameter_def
  PushLocalReferenceFrame_def PopLocalReferenceFrame_def

lemma cfa_step_1_1: "hoare (\<lambda>s. jni_asm s = []) (step_1_1 c)
   (\<lambda>s. cfa_ok s \<and> jni_asm s = [BuildFrame (current_frame_size s) (method_register s) (callee_save_regs c)])"
  by (simp add: step_1_1_def cfa_simps GetCurrentCFAOffset_def)

lemma cfa_step_1_2: "hoare cfa_ok (step_1_2 c) cfa_ok"
  by (simp add: step_1_2_def cfa_simps)

lemma cfa_step_1_3: "hoare cfa_ok (step_1_3 c) cfa_ok"
  by (simp add: step_1_3_def cfa_simps)

lemma cfa_step_2_1: "hoare cfa_ok (step_2_1 c) cfa_ok"
  by (simp add: step_2_1_def cfa_simps)

lemma cfa_step_2_3: "hoare cfa_ok (step_2_3 c) cfa_ok"
  by (simp add: step_2_3_def cfa_simps)

lemma cfa_step_3: "hoare cfa_ok (step_3 c) cfa_ok"
  by (simp add: step_3_def cfa_simps)

lemma cfa_step_4_2: "hoare cfa_ok (step_4_2 c) cfa_ok"
  by (simp add: step_4_2_def cfa_simps)

lemma cfa_step_4_3: "hoare cfa_ok (step_4_3 c) cfa_ok"
  by (simp add: step_4_3_def cfa_simps)

lemma cfa_step_4_4: "hoare cfa_ok (step_4_4 c) cfa_ok"
  by (simp add: step_4_4_def cfa_simps)

lemma cfa_step_5_1: "hoare cfa_ok (step_5_1 c) cfa_ok"
  by (simp add: step_5_1_def cfa_simps)

lemma cfa_step_5_2: "hoare cfa_ok (step_5_2 c) cfa_ok"
  by (simp add: step_5_2_def cfa_simps)

lemma cfa_step_5_3: "hoare cfa_ok (step_5_3 c) cfa_ok"
  by (simp add: step_5_3_def cfa_simps)

lemma cfa_step_5_4: "hoare cfa_ok (step_5_4 c) cfa_ok"
  by (simp add: step_5_4_def cfa_simps)

lemma cfa_step_5_5: "hoare cfa_ok (step_5_5 c) cfa_ok"
  by (simp add: step_5_5_def cfa_simps)

lemma cfa_step_5_6: "hoare cfa_ok (step_5_6 c) cfa_ok"
  by (simp add: step_5_6_def cfa_simps)

lemma cfa_step_6: "hoare cfa_ok (step_6 c) cfa_ok"
  by (simp add: step_6_def cfa_simps)

lemma cfa_step_7_1: "hoare cfa_ok (step_7_1 c) cfa_ok"
  by (simp add: step_7_1_def cfa_simps)

lemma cfa_step_7_2: "hoare cfa_ok (step_7_2 c) cfa_ok"
  by (simp add: step_7_2_def cfa_simps)

lemma cfa_step_7_3: "hoare cfa_ok (step_7_3 c) cfa_ok"
  by (simp add: step_7_3_def cfa_simps)

lemma cfa_step_7_4: "hoare cfa_ok (step_7_4 c) cfa_ok"
  by (simp add: step_7_4_def cfa_simps)

lemma cfa_step_8_1: "hoare cfa_ok (step_8_1 c) cfa_ok"
  by (simp add: step_8_1_def cfa_simps)

lemma cfa_step_8_2: "hoare cfa_ok (step_8_2 c) cfa_ok"
  by (simp add: step_8_2_def cfa_simps)

lemma cfa_step_8_3_rewind: "hoare cfa_ok (step_8_3_rewind c) cfa_ok"
  by (simp add: step_8_3_rewind_def cfa_simps)

lemma cfa_step_8_3_deliver: "hoare cfa_ok (step_8_3_deliver c) cfa_ok"
  by (simp add: step_8_3_deliver_def cfa_simps)

lemma cfa_step_9: "hoare cfa_ok (step_9 c) cfa_ok"
  by (simp add: step_9_def cfa_simps)

lemma cfa_step_2_2: "hoare cfa_ok (step_2_2 c) cfa_ok"
  unfolding hoare_def
proof (intro allI impI)
  fix s assume "cfa_ok s"
  with step_2_2_after [of c s] show "after (step_2_2 c) cfa_ok s"
    by (auto simp: after_def cfa_ok_def cfa_append shuffle_frame_def split: sum.splits)
qed

lemma cfa_step_4_1: "hoare cfa_ok (step_4_1 c) cfa_ok"
  unfolding hoare_def
proof (intro allI impI)
  fix s assume "cfa_ok s"
  with step_4_1_after [of c s] show "after (step_4_1 c) cfa_ok s"
    by (auto simp: after_def cfa_ok_def cfa_append shuffle_frame_def split: sum.splits)
qed

lemma run_append_Inr:
  "run (as @ bs) s = Inr s' \<Longrightarrow> \<exists>s1. run as s = Inr s1 \<and> run bs s1 = Inr s'"
  by (simp add: run_append split: sum.splits)

lemma cfa_main_path: "hoare cfa_ok (run (main_path c)) cfa_ok"
  by (rule hoare_invariant)
     (auto simp: main_path_def intro: cfa_step_1_2 cfa_step_1_3 cfa_step_2_1 cfa_step_2_2
        cfa_step_2_3 cfa_step_3 cfa_step_4_1 cfa_step_4_2 cfa_step_4_3 cfa_step_4_4
        cfa_step_5_1 cfa_step_5_2 cfa_step_5_3 cfa_step_5_4 cfa_step_5_5 cfa_step_5_6
        cfa_step_6 cfa_step_7_1 cfa_step_7_2 cfa_step_7_3)

lemma cfa_slow_paths: "hoare cfa_ok (run (slow_paths c)) cfa_ok"
  by (rule hoare_invariant)
     (auto simp: slow_paths_def intro: cfa_step_7_4 cfa_step_8_1 cfa_step_8_2 cfa_step_8_3_rewind)

lemma deliver_and_finalize:
  "run [step_8_3_deliver c, step_9 c] s = Inr s' \<Longrightarrow>
   jni_asm s' = jni_asm s @ (if is_critical_native c then [] else [DeliverPendingException])
      @ [FinalizeCode, FinalizeInstructions]"
  by (auto simp: step_8_3_deliver_def step_9_def when_do_def DCHECK_def emit_def
      split: sum.splits if_splits)

text \<open>
  C8. In every successful compile the assembler's CFA offset equals
  \<^verbatim>\<open>current_frame_size\<close> right after \<^verbatim>\<open>BuildFrame\<close> (the locals \<open>s1\<close>), again where step 7.4
  checks it and emits \<^verbatim>\<open>RemoveFrame\<close> (\<open>s2\<close>, after every \<^verbatim>\<open>IncreaseFrameSize\<close> and
  \<^verbatim>\<open>DecreaseFrameSize\<close> of the main path), and again where the exception slow path is about
  to emit \<^verbatim>\<open>DeliverPendingException\<close> (\<open>s3\<close>, after the CFI adjustments of the slow paths).
\<close>

theorem cfa_offset_equals_current_frame_size:
  assumes "ArtJniCompileMethodInternal env ps inp = Inr m"
  shows "\<exists>s1 s2 s3.
      run (prologue (make_context env ps inp)) initial_locals = Inr s1
    \<and> jni_asm s1 = [BuildFrame (current_frame_size s1) (method_register s1)
                      (callee_save_regs (make_context env ps inp))]
    \<and> GetCurrentCFAOffset (jni_asm s1) = ucast (current_frame_size s1)
    \<and> run (main_path (make_context env ps inp)) s1 = Inr s2
    \<and> GetCurrentCFAOffset (jni_asm s2) = ucast (current_frame_size s2)
    \<and> run (slow_paths (make_context env ps inp)) s2 = Inr s3
    \<and> GetCurrentCFAOffset (jni_asm s3) = ucast (current_frame_size s3)
    \<and> compiled_code m = jni_asm s3
        @ (if is_critical_native (make_context env ps inp) then [] else [DeliverPendingException])
        @ [FinalizeCode, FinalizeInstructions]"
proof -
  let ?c = "make_context env ps inp"
  from compiled_emission [OF assms] obtain s where
    em: "emission env ps inp = Inr s" and code: "compiled_code m = jni_asm s"
    by blast
  from emission_script(1) [OF em]
  have "run (prologue ?c @ main_path ?c @ slow_paths ?c @ [step_8_3_deliver ?c, step_9 ?c])
          initial_locals = Inr s"
    by (simp add: script_def)
  then obtain s1 s2 s3 where
    r1: "run (prologue ?c) initial_locals = Inr s1" and
    r2: "run (main_path ?c) s1 = Inr s2" and
    r3: "run (slow_paths ?c) s2 = Inr s3" and
    r4: "run [step_8_3_deliver ?c, step_9 ?c] s3 = Inr s"
    by (blast dest: run_append_Inr)
  from r1 have "step_1_1 ?c initial_locals = Inr s1"
    by (simp add: prologue_def split: sum.splits)
  from hoareD [OF cfa_step_1_1 _ this]
  have p1: "cfa_ok s1" and
    b1: "jni_asm s1 = [BuildFrame (current_frame_size s1) (method_register s1) (callee_save_regs ?c)]"
    by (simp_all add: initial_locals_def)
  from hoareD [OF cfa_main_path p1 r2] have p2: "cfa_ok s2" .
  from hoareD [OF cfa_slow_paths p2 r3] have p3: "cfa_ok s3" .
  from deliver_and_finalize [OF r4] code
  have "compiled_code m = jni_asm s3
        @ (if is_critical_native ?c then [] else [DeliverPendingException])
        @ [FinalizeCode, FinalizeInstructions]"
    by simp
  with r1 r2 r3 b1 p1 p2 p3 show ?thesis
    unfolding cfa_ok_def by blast
qed

lemma test_compile_static: "\<not> isl (ArtJniCompileMethodInternal (test_env True) k64 (test_input 0x108 ''VLJ''))"
  by code_simp

theorem cfa_offset_equals_current_frame_size_witness:
  "\<exists>m s1 s2 s3.
      ArtJniCompileMethodInternal (test_env True) k64 (test_input 0x108 ''VLJ'') = Inr m
    \<and> run (prologue (make_context (test_env True) k64 (test_input 0x108 ''VLJ''))) initial_locals = Inr s1
    \<and> GetCurrentCFAOffset (jni_asm s1) = ucast (current_frame_size s1)
    \<and> run (main_path (make_context (test_env True) k64 (test_input 0x108 ''VLJ''))) s1 = Inr s2
    \<and> GetCurrentCFAOffset (jni_asm s2) = ucast (current_frame_size s2)
    \<and> run (slow_paths (make_context (test_env True) k64 (test_input 0x108 ''VLJ''))) s2 = Inr s3
    \<and> GetCurrentCFAOffset (jni_asm s3) = ucast (current_frame_size s3)"
proof -
  obtain m where m: "ArtJniCompileMethodInternal (test_env True) k64 (test_input 0x108 ''VLJ'') = Inr m"
    using test_compile_static by (cases "ArtJniCompileMethodInternal (test_env True) k64 (test_input 0x108 ''VLJ'')") auto
  from cfa_offset_equals_current_frame_size [OF m] m show ?thesis by blast
qed

subsection \<open>What the steps emit\<close>

lemma emitted_onlyI:
  "(\<And>s. after a (\<lambda>s'. \<exists>E. jni_asm s' = jni_asm s @ E \<and> list_all A E) s) \<Longrightarrow> emitted_only A a"
  unfolding emitted_only_def
proof (intro allI impI)
  fix s s' assume a: "a s = Inr s'"
  assume "\<And>s. after a (\<lambda>s'. \<exists>E. jni_asm s' = jni_asm s @ E \<and> list_all A E) s"
  from afterD [OF this a] show "\<exists>E. jni_asm s' = jni_asm s @ E \<and> list_all A E" .
qed

lemma emitted_onlyD:
  "emitted_only A a \<Longrightarrow> a s = Inr s' \<Longrightarrow> \<exists>E. jni_asm s' = jni_asm s @ E \<and> list_all A E"
  by (simp add: emitted_only_def)

lemma emitted_only_weaken:
  "emitted_only A a \<Longrightarrow> (\<And>x. A x \<Longrightarrow> B x) \<Longrightarrow> emitted_only B a"
  unfolding emitted_only_def list_all_iff by blast

lemma emitted_only_run:
  "(\<And>a. a \<in> set as \<Longrightarrow> emitted_only A a) \<Longrightarrow> emitted_only A (run as)"
proof (induction as)
  case Nil
  show ?case by (simp add: emitted_only_def)
next
  case (Cons a as)
  have a: "emitted_only A a" and as: "emitted_only A (run as)"
    using Cons by simp_all
  show ?case
    unfolding emitted_only_def
  proof (intro allI impI)
    fix s s' assume "run (a # as) s = Inr s'"
    then obtain s1 where 1: "a s = Inr s1" and 2: "run as s1 = Inr s'"
      by (auto split: sum.splits)
    from emitted_onlyD [OF a 1] emitted_onlyD [OF as 2]
    show "\<exists>E. jni_asm s' = jni_asm s @ E \<and> list_all A E"
      by (metis append.assoc list_all_append)
  qed
qed

lemma shuffle_steps:
  shows "emitted_only is_shuffle_op (step_2_2 c)" and "emitted_only is_shuffle_op (step_4_1 c)"
proof -
  show "emitted_only is_shuffle_op (step_2_2 c)"
    unfolding emitted_only_def
  proof (intro allI impI)
    fix s s' assume "step_2_2 c s = Inr s'"
    with step_2_2_after [of c s] show "\<exists>E. jni_asm s' = jni_asm s @ E \<and> list_all is_shuffle_op E"
      by (simp add: after_def is_shuffle_op_def)
  qed
  show "emitted_only is_shuffle_op (step_4_1 c)"
    unfolding emitted_only_def
  proof (intro allI impI)
    fix s s' assume "step_4_1 c s = Inr s'"
    with step_4_1_after [of c s] show "\<exists>E. jni_asm s' = jni_asm s @ E \<and> list_all is_shuffle_op E"
      by (simp add: after_def is_shuffle_op_def)
  qed
qed

lemmas emitted_simps = after_simps shorthand_defs SetNativeParameter_def
  PushLocalReferenceFrame_def PopLocalReferenceFrame_def
  is_BuildFrame_def is_local_reference_frame_op_def critical_native_excluded_def
  called_entrypoint_def is_JniMethodStart_def is_JniMethodEnd_def
  GetJniEntrypointThreadOffset_def jni_end_def jni_entrypoint_offset_def

lemma no_BuildFrame_steps:
  shows "emitted_only (\<lambda>x. \<not> is_BuildFrame x) (step_1_2 c)"
    and "emitted_only (\<lambda>x. \<not> is_BuildFrame x) (step_1_3 c)"
    and "emitted_only (\<lambda>x. \<not> is_BuildFrame x) (step_2_1 c)"
    and "emitted_only (\<lambda>x. \<not> is_BuildFrame x) (step_2_3 c)"
    and "emitted_only (\<lambda>x. \<not> is_BuildFrame x) (step_3 c)"
    and "emitted_only (\<lambda>x. \<not> is_BuildFrame x) (step_4_2 c)"
    and "emitted_only (\<lambda>x. \<not> is_BuildFrame x) (step_4_3 c)"
    and "emitted_only (\<lambda>x. \<not> is_BuildFrame x) (step_4_4 c)"
    and "emitted_only (\<lambda>x. \<not> is_BuildFrame x) (step_5_1 c)"
    and "emitted_only (\<lambda>x. \<not> is_BuildFrame x) (step_5_2 c)"
    and "emitted_only (\<lambda>x. \<not> is_BuildFrame x) (step_5_3 c)"
    and "emitted_only (\<lambda>x. \<not> is_BuildFrame x) (step_5_4 c)"
    and "emitted_only (\<lambda>x. \<not> is_BuildFrame x) (step_5_5 c)"
    and "emitted_only (\<lambda>x. \<not> is_BuildFrame x) (step_5_6 c)"
    and "emitted_only (\<lambda>x. \<not> is_BuildFrame x) (step_6 c)"
    and "emitted_only (\<lambda>x. \<not> is_BuildFrame x) (step_7_1 c)"
    and "emitted_only (\<lambda>x. \<not> is_BuildFrame x) (step_7_2 c)"
    and "emitted_only (\<lambda>x. \<not> is_BuildFrame x) (step_7_3 c)"
    and "emitted_only (\<lambda>x. \<not> is_BuildFrame x) (step_7_4 c)"
    and "emitted_only (\<lambda>x. \<not> is_BuildFrame x) (step_8_1 c)"
    and "emitted_only (\<lambda>x. \<not> is_BuildFrame x) (step_8_2 c)"
    and "emitted_only (\<lambda>x. \<not> is_BuildFrame x) (step_8_3_rewind c)"
    and "emitted_only (\<lambda>x. \<not> is_BuildFrame x) (step_8_3_deliver c)"
    and "emitted_only (\<lambda>x. \<not> is_BuildFrame x) (step_9 c)"
  by (rule emitted_onlyI, simp add: step_1_2_def step_1_3_def step_2_1_def step_2_3_def step_3_def step_4_2_def step_4_3_def step_4_4_def step_5_1_def step_5_2_def step_5_3_def step_5_4_def step_5_5_def step_5_6_def step_6_def step_7_1_def step_7_2_def step_7_3_def step_7_4_def step_8_1_def step_8_2_def step_8_3_rewind_def step_8_3_deliver_def step_9_def emitted_simps)+


lemma not_list_ex: "(\<not> list_ex P xs) = list_all (\<lambda>x. \<not> P x) xs"
  by (simp add: list_all_iff list_ex_iff)


subsection \<open>The frame built by the prologue\<close>

lemma script_Cons:
  "script c = step_1_1 c # (main_path c @ slow_paths c @ [step_8_3_deliver c, step_9 c])"
  by (simp add: script_def prologue_def)

lemma step_1_1_result:
  "hoare (\<lambda>s. jni_asm s = []) (step_1_1 c)
     (\<lambda>s. jni_asm s =
        [BuildFrame
           (if is_critical_native c then jni_OutFrameSize (main_jni_conv c)
            else jni_FrameSize (main_jni_conv c))
           (if is_critical_native c then NoRegister
            else Register (mr_MethodRegister (mr_conv c)))
           (jni_CalleeSaveRegisters (main_jni_conv c))])"
  by (simp add: step_1_1_def hoare_def after_simps main_out_arg_size_def managed_frame_size_def
      MethodRegister_def callee_save_regs_def)

lemma no_BuildFrame_shuffle:
  shows "emitted_only (\<lambda>x. \<not> is_BuildFrame x) (step_2_2 c)"
    and "emitted_only (\<lambda>x. \<not> is_BuildFrame x) (step_4_1 c)"
  by (rule emitted_only_weaken [OF shuffle_steps(1)] emitted_only_weaken [OF shuffle_steps(2)],
      auto simp: is_shuffle_op_def is_BuildFrame_def split: op.splits)+

lemma no_BuildFrame_after_prologue:
  "emitted_only (\<lambda>x. \<not> is_BuildFrame x)
     (run (main_path c @ slow_paths c @ [step_8_3_deliver c, step_9 c]))"
  by (rule emitted_only_run)
     (auto simp: main_path_def slow_paths_def intro: no_BuildFrame_steps no_BuildFrame_shuffle)

text \<open>
  C3. The script of every compile starts with the one \<^verbatim>\<open>BuildFrame\<close> it contains; its frame
  size is \<^verbatim>\<open>main.OutFrameSize()\<close> for a critical native method and \<^verbatim>\<open>main.FrameSize()\<close>
  otherwise, and its method register is \<^verbatim>\<open>NoRegister\<close> for a critical native method and
  \<^verbatim>\<open>mr.MethodRegister()\<close> otherwise.
\<close>

theorem build_frame_arguments:
  assumes "ArtJniCompileMethodInternal env ps inp = Inr m"
  shows "\<exists>rest. compiled_code m =
      BuildFrame
        (if is_critical_native (make_context env ps inp)
         then jni_OutFrameSize (main_jni_conv (make_context env ps inp))
         else jni_FrameSize (main_jni_conv (make_context env ps inp)))
        (if is_critical_native (make_context env ps inp) then NoRegister
         else Register (mr_MethodRegister (mr_conv (make_context env ps inp))))
        (jni_CalleeSaveRegisters (main_jni_conv (make_context env ps inp))) # rest
    \<and> \<not> list_ex is_BuildFrame rest"
proof -
  let ?c = "make_context env ps inp"
  from compiled_emission [OF assms] obtain s where
    em: "emission env ps inp = Inr s" and code: "compiled_code m = jni_asm s"
    by blast
  from emission_script(1) [OF em] obtain s1 where
    r1: "step_1_1 ?c initial_locals = Inr s1" and
    r2: "run (main_path ?c @ slow_paths ?c @ [step_8_3_deliver ?c, step_9 ?c]) s1 = Inr s"
    by (auto simp: script_Cons split: sum.splits)
  from hoareD [OF step_1_1_result _ r1]
  have b: "jni_asm s1 =
      [BuildFrame
        (if is_critical_native ?c then jni_OutFrameSize (main_jni_conv ?c)
         else jni_FrameSize (main_jni_conv ?c))
        (if is_critical_native ?c then NoRegister else Register (mr_MethodRegister (mr_conv ?c)))
        (jni_CalleeSaveRegisters (main_jni_conv ?c))]"
    by (simp add: initial_locals_def)
  from emitted_onlyD [OF no_BuildFrame_after_prologue r2] obtain E where
    "jni_asm s = jni_asm s1 @ E" and "list_all (\<lambda>x. \<not> is_BuildFrame x) E"
    by blast
  with b code show ?thesis
    by (simp add: not_list_ex)
qed

lemma test_compile_critical:
  "\<not> isl (ArtJniCompileMethodInternal (test_env True) k64 (test_input 0x100108 ''IJ''))"
  by code_simp

lemma not_isl_Inr: "\<not> isl x \<Longrightarrow> \<exists>y. x = Inr y"
  by (cases x) simp_all

theorem build_frame_arguments_witness:
  "\<exists>m rest. ArtJniCompileMethodInternal (test_env True) k64 (test_input 0x108 ''VLJ'') = Inr m
     \<and> compiled_code m = BuildFrame 96 (Register 0) [19, 20] # rest
     \<and> \<not> list_ex is_BuildFrame rest"
proof -
  obtain m where m: "ArtJniCompileMethodInternal (test_env True) k64 (test_input 0x108 ''VLJ'') = Inr m"
    using not_isl_Inr [OF test_compile_static] by blast
  have c: "\<not> is_critical_native (make_context (test_env True) k64 (test_input 0x108 ''VLJ''))"
    by (simp add: make_context_def test_env_def test_input_def Let_def)
  from build_frame_arguments [OF m] c m show ?thesis
    by (simp add: make_context_def test_env_def test_input_def Let_def test_jni_conv_def
        test_mr_conv_def)
qed

subsection \<open>Critical native stubs\<close>









subsection \<open>The runtime call at the end of the method\<close>

lemma map_filter_append: "List.map_filter f (xs @ ys) = List.map_filter f xs @ List.map_filter f ys"
  by (simp add: List.map_filter_def)

lemma map_filter_none: "list_all (\<lambda>x. f x = None) xs \<Longrightarrow> List.map_filter f xs = []"
  by (induction xs) (simp_all add: List.map_filter_simps)

lemma end_call_shuffle:
  shows "emitted_only (\<lambda>x. end_of_method_call x = None) (step_2_2 c)"
    and "emitted_only (\<lambda>x. end_of_method_call x = None) (step_4_1 c)"
  by (rule emitted_only_weaken [OF shuffle_steps(1)] emitted_only_weaken [OF shuffle_steps(2)],
      auto simp: is_shuffle_op_def end_of_method_call_def called_entrypoint_def split: op.splits)+

lemma end_call_steps:
  shows "emitted_only (\<lambda>x. end_of_method_call x = None) (step_1_1 c)"
    and "emitted_only (\<lambda>x. end_of_method_call x = None) (step_1_2 c)"
    and "emitted_only (\<lambda>x. end_of_method_call x = None) (step_1_3 c)"
    and "emitted_only (\<lambda>x. end_of_method_call x = None) (step_2_1 c)"
    and "emitted_only (\<lambda>x. end_of_method_call x = None) (step_2_3 c)"
    and "emitted_only (\<lambda>x. end_of_method_call x = None) (step_3 c)"
    and "emitted_only (\<lambda>x. end_of_method_call x = None) (step_4_2 c)"
    and "emitted_only (\<lambda>x. end_of_method_call x = None) (step_4_3 c)"
    and "emitted_only (\<lambda>x. end_of_method_call x = None) (step_4_4 c)"
    and "emitted_only (\<lambda>x. end_of_method_call x = None) (step_5_1 c)"
    and "emitted_only (\<lambda>x. end_of_method_call x = None) (step_5_2 c)"
    and "emitted_only (\<lambda>x. end_of_method_call x = None) (step_5_3 c)"
    and "emitted_only (\<lambda>x. end_of_method_call x = None) (step_5_4 c)"
    and "emitted_only (\<lambda>x. end_of_method_call x = None) (step_5_6 c)"
    and "emitted_only (\<lambda>x. end_of_method_call x = None) (step_6 c)"
    and "emitted_only (\<lambda>x. end_of_method_call x = None) (step_7_1 c)"
    and "emitted_only (\<lambda>x. end_of_method_call x = None) (step_7_2 c)"
    and "emitted_only (\<lambda>x. end_of_method_call x = None) (step_7_3 c)"
    and "emitted_only (\<lambda>x. end_of_method_call x = None) (step_7_4 c)"
    and "emitted_only (\<lambda>x. end_of_method_call x = None) (step_8_1 c)"
    and "emitted_only (\<lambda>x. end_of_method_call x = None) (step_8_2 c)"
    and "emitted_only (\<lambda>x. end_of_method_call x = None) (step_8_3_rewind c)"
    and "emitted_only (\<lambda>x. end_of_method_call x = None) (step_8_3_deliver c)"
    and "emitted_only (\<lambda>x. end_of_method_call x = None) (step_9 c)"
  by (rule emitted_onlyI, simp add: step_1_1_def step_1_2_def step_1_3_def step_2_1_def step_2_3_def step_3_def step_4_2_def step_4_3_def step_4_4_def step_5_1_def step_5_2_def step_5_3_def step_5_4_def step_5_6_def step_6_def step_7_1_def step_7_2_def step_7_3_def step_7_4_def step_8_1_def step_8_2_def step_8_3_rewind_def step_8_3_deliver_def step_9_def emitted_simps end_of_method_call_def is_end_of_method_entrypoint_def)+

lemma end_call_step_5_5:
  "after (step_5_5 c)
     (\<lambda>s'. \<exists>E. jni_asm s' = jni_asm s @ E
        \<and> List.map_filter end_of_method_call E =
            (if \<not> is_critical_native c \<and> (\<not> is_fast_native c \<or> reference_return c)
             then [jni_end_entrypoint c] else [])) s"
  by (simp add: step_5_5_def emitted_simps end_of_method_call_def is_end_of_method_entrypoint_def
      jni_end_entrypoint_def List.map_filter_simps)

lemma script_at_5_5:
  "script c = [step_1_1 c, step_1_2 c, step_1_3 c, step_2_1 c, step_2_2 c, step_2_3 c, step_3 c, step_4_1 c, step_4_2 c, step_4_3 c, step_4_4 c, step_5_1 c, step_5_2 c, step_5_3 c, step_5_4 c] @ step_5_5 c # [step_5_6 c, step_6 c, step_7_1 c, step_7_2 c, step_7_3 c, step_7_4 c, step_8_1 c, step_8_2 c, step_8_3_rewind c, step_8_3_deliver c, step_9 c]"
  by (simp add: script_def prologue_def main_path_def slow_paths_def)

text \<open>
  C1. In a compile that is not critical native, a fast native method gets an
  end-of-method runtime call exactly when it returns a reference, and the call is
  \<^verbatim>\<open>pJniDecodeReferenceResult\<close>; a normal native method gets exactly one, which is
  \<^verbatim>\<open>pJniMethodEnd\<close>, \<^verbatim>\<open>pJniMethodEndWithReference\<close>, \<^verbatim>\<open>pJniMethodEndSynchronized\<close> or
  \<^verbatim>\<open>pJniMethodEndWithReferenceSynchronized\<close> by the reference-return and synchronized bits.
\<close>

theorem end_of_method_call_selection:
  assumes "ArtJniCompileMethodInternal env ps inp = Inr m"
    and "\<not> is_critical_native (make_context env ps inp)"
  shows "end_of_method_calls (compiled_code m) =
    (if is_fast_native (make_context env ps inp)
     then (if reference_return (make_context env ps inp) then [pJniDecodeReferenceResult] else [])
     else [if reference_return (make_context env ps inp)
           then (if is_synchronized (make_context env ps inp)
                 then pJniMethodEndWithReferenceSynchronized else pJniMethodEndWithReference)
           else (if is_synchronized (make_context env ps inp)
                 then pJniMethodEndSynchronized else pJniMethodEnd)])"
proof -
  let ?c = "make_context env ps inp"
  from compiled_emission [OF assms(1)] obtain s where
    em: "emission env ps inp = Inr s" and code: "compiled_code m = jni_asm s"
    by blast
  from emission_script(1) [OF em] obtain s1 s2 where
    r1: "run [step_1_1 ?c, step_1_2 ?c, step_1_3 ?c, step_2_1 ?c, step_2_2 ?c, step_2_3 ?c, step_3 ?c, step_4_1 ?c, step_4_2 ?c, step_4_3 ?c, step_4_4 ?c, step_5_1 ?c, step_5_2 ?c, step_5_3 ?c, step_5_4 ?c] initial_locals = Inr s1" and
    r2: "step_5_5 ?c s1 = Inr s2" and
    r3: "run [step_5_6 ?c, step_6 ?c, step_7_1 ?c, step_7_2 ?c, step_7_3 ?c, step_7_4 ?c, step_8_1 ?c, step_8_2 ?c, step_8_3_rewind ?c, step_8_3_deliver ?c, step_9 ?c] s2 = Inr s"
    unfolding script_at_5_5 [of ?c]
    by (auto dest!: run_append_Inr split: sum.splits)
  have "emitted_only (\<lambda>x. end_of_method_call x = None) (run [step_1_1 ?c, step_1_2 ?c, step_1_3 ?c, step_2_1 ?c, step_2_2 ?c, step_2_3 ?c, step_3 ?c, step_4_1 ?c, step_4_2 ?c, step_4_3 ?c, step_4_4 ?c, step_5_1 ?c, step_5_2 ?c, step_5_3 ?c, step_5_4 ?c])"
    by (rule emitted_only_run) (auto intro: end_call_steps end_call_shuffle)
  from emitted_onlyD [OF this r1] have e1: "end_of_method_calls (jni_asm s1) = []"
    by (auto simp: end_of_method_calls_def initial_locals_def map_filter_none)
  have "emitted_only (\<lambda>x. end_of_method_call x = None) (run [step_5_6 ?c, step_6 ?c, step_7_1 ?c, step_7_2 ?c, step_7_3 ?c, step_7_4 ?c, step_8_1 ?c, step_8_2 ?c, step_8_3_rewind ?c, step_8_3_deliver ?c, step_9 ?c])"
    by (rule emitted_only_run) (auto intro: end_call_steps end_call_shuffle)
  from emitted_onlyD [OF this r3]
  have e3: "end_of_method_calls (jni_asm s) = end_of_method_calls (jni_asm s2)"
    by (auto simp: end_of_method_calls_def map_filter_append map_filter_none)
  from afterD [OF end_call_step_5_5 r2] assms(2)
  have e2: "end_of_method_calls (jni_asm s2) = end_of_method_calls (jni_asm s1) @
      (if \<not> is_fast_native ?c \<or> reference_return ?c then [jni_end_entrypoint ?c] else [])"
    by (auto simp: end_of_method_calls_def map_filter_append)
  from e1 e2 e3 code show ?thesis
    by (simp add: jni_end_entrypoint_def)
qed

theorem end_of_method_call_selection_witness:
  "\<exists>m. ArtJniCompileMethodInternal (test_env True) k64 (test_input 0x108 ''VLJ'') = Inr m
     \<and> \<not> is_critical_native (make_context (test_env True) k64 (test_input 0x108 ''VLJ''))
     \<and> end_of_method_calls (compiled_code m) = [pJniMethodEnd]"
proof -
  obtain m where m: "ArtJniCompileMethodInternal (test_env True) k64 (test_input 0x108 ''VLJ'') = Inr m"
    using not_isl_Inr [OF test_compile_static] by blast
  have c: "\<not> is_critical_native (make_context (test_env True) k64 (test_input 0x108 ''VLJ''))"
    by (simp add: make_context_def test_env_def test_input_def Let_def)
  from end_of_method_call_selection [OF m c] c m show ?thesis
    by (simp add: make_context_def test_env_def test_input_def Let_def test_jni_conv_def)
qed

subsection \<open>The local reference frame\<close>

lemma appending_steps:
  shows "emitted_only (\<lambda>x. True) (step_1_1 c)"
    and "emitted_only (\<lambda>x. True) (step_1_2 c)"
    and "emitted_only (\<lambda>x. True) (step_1_3 c)"
    and "emitted_only (\<lambda>x. True) (step_2_1 c)"
    and "emitted_only (\<lambda>x. True) (step_2_3 c)"
    and "emitted_only (\<lambda>x. True) (step_3 c)"
    and "emitted_only (\<lambda>x. True) (step_4_2 c)"
    and "emitted_only (\<lambda>x. True) (step_4_3 c)"
    and "emitted_only (\<lambda>x. True) (step_4_4 c)"
    and "emitted_only (\<lambda>x. True) (step_5_1 c)"
    and "emitted_only (\<lambda>x. True) (step_5_2 c)"
    and "emitted_only (\<lambda>x. True) (step_5_3 c)"
    and "emitted_only (\<lambda>x. True) (step_5_4 c)"
    and "emitted_only (\<lambda>x. True) (step_5_5 c)"
    and "emitted_only (\<lambda>x. True) (step_5_6 c)"
    and "emitted_only (\<lambda>x. True) (step_6 c)"
    and "emitted_only (\<lambda>x. True) (step_7_1 c)"
    and "emitted_only (\<lambda>x. True) (step_7_2 c)"
    and "emitted_only (\<lambda>x. True) (step_7_3 c)"
    and "emitted_only (\<lambda>x. True) (step_7_4 c)"
    and "emitted_only (\<lambda>x. True) (step_8_1 c)"
    and "emitted_only (\<lambda>x. True) (step_8_2 c)"
    and "emitted_only (\<lambda>x. True) (step_8_3_rewind c)"
    and "emitted_only (\<lambda>x. True) (step_8_3_deliver c)"
    and "emitted_only (\<lambda>x. True) (step_9 c)"
  by (rule emitted_onlyI, simp add: step_1_1_def step_1_2_def step_1_3_def step_2_1_def step_2_3_def step_3_def step_4_2_def step_4_3_def step_4_4_def step_5_1_def step_5_2_def step_5_3_def step_5_4_def step_5_5_def step_5_6_def step_6_def step_7_1_def step_7_2_def step_7_3_def step_7_4_def step_8_1_def step_8_2_def step_8_3_rewind_def step_8_3_deliver_def step_9_def emitted_simps)+

lemma appending_shuffle:
  shows "emitted_only (\<lambda>x. True) (step_2_2 c)"
    and "emitted_only (\<lambda>x. True) (step_4_1 c)"
  by (rule emitted_only_weaken [OF shuffle_steps(1)] emitted_only_weaken [OF shuffle_steps(2)],
      simp)+

lemma appending_run:
  "set as \<subseteq> set (script c) \<Longrightarrow> emitted_only (\<lambda>x. True) (run as)"
  by (rule emitted_only_run)
     (auto simp: script_def prologue_def main_path_def slow_paths_def
        intro: appending_steps appending_shuffle)

lemma no_reference_frame_steps:
  assumes "is_critical_native c"
  shows "emitted_only (\<lambda>x. \<not> is_local_reference_frame_op x) (step_1_1 c)"
    and "emitted_only (\<lambda>x. \<not> is_local_reference_frame_op x) (step_1_2 c)"
    and "emitted_only (\<lambda>x. \<not> is_local_reference_frame_op x) (step_1_3 c)"
    and "emitted_only (\<lambda>x. \<not> is_local_reference_frame_op x) (step_2_1 c)"
    and "emitted_only (\<lambda>x. \<not> is_local_reference_frame_op x) (step_2_3 c)"
    and "emitted_only (\<lambda>x. \<not> is_local_reference_frame_op x) (step_3 c)"
    and "emitted_only (\<lambda>x. \<not> is_local_reference_frame_op x) (step_4_2 c)"
    and "emitted_only (\<lambda>x. \<not> is_local_reference_frame_op x) (step_4_3 c)"
    and "emitted_only (\<lambda>x. \<not> is_local_reference_frame_op x) (step_4_4 c)"
    and "emitted_only (\<lambda>x. \<not> is_local_reference_frame_op x) (step_5_1 c)"
    and "emitted_only (\<lambda>x. \<not> is_local_reference_frame_op x) (step_5_2 c)"
    and "emitted_only (\<lambda>x. \<not> is_local_reference_frame_op x) (step_5_3 c)"
    and "emitted_only (\<lambda>x. \<not> is_local_reference_frame_op x) (step_5_4 c)"
    and "emitted_only (\<lambda>x. \<not> is_local_reference_frame_op x) (step_5_5 c)"
    and "emitted_only (\<lambda>x. \<not> is_local_reference_frame_op x) (step_5_6 c)"
    and "emitted_only (\<lambda>x. \<not> is_local_reference_frame_op x) (step_6 c)"
    and "emitted_only (\<lambda>x. \<not> is_local_reference_frame_op x) (step_7_1 c)"
    and "emitted_only (\<lambda>x. \<not> is_local_reference_frame_op x) (step_7_2 c)"
    and "emitted_only (\<lambda>x. \<not> is_local_reference_frame_op x) (step_7_3 c)"
    and "emitted_only (\<lambda>x. \<not> is_local_reference_frame_op x) (step_7_4 c)"
    and "emitted_only (\<lambda>x. \<not> is_local_reference_frame_op x) (step_8_1 c)"
    and "emitted_only (\<lambda>x. \<not> is_local_reference_frame_op x) (step_8_2 c)"
    and "emitted_only (\<lambda>x. \<not> is_local_reference_frame_op x) (step_8_3_rewind c)"
    and "emitted_only (\<lambda>x. \<not> is_local_reference_frame_op x) (step_8_3_deliver c)"
    and "emitted_only (\<lambda>x. \<not> is_local_reference_frame_op x) (step_9 c)"
  by (rule emitted_onlyI, simp add: assms step_1_1_def step_1_2_def step_1_3_def step_2_1_def step_2_3_def step_3_def step_4_2_def step_4_3_def step_4_4_def step_5_1_def step_5_2_def step_5_3_def step_5_4_def step_5_5_def step_5_6_def step_6_def step_7_1_def step_7_2_def step_7_3_def step_7_4_def step_8_1_def step_8_2_def step_8_3_rewind_def step_8_3_deliver_def step_9_def emitted_simps)+

lemma no_reference_frame_shuffle:
  shows "emitted_only (\<lambda>x. \<not> is_local_reference_frame_op x) (step_2_2 c)"
    and "emitted_only (\<lambda>x. \<not> is_local_reference_frame_op x) (step_4_1 c)"
  by (rule emitted_only_weaken [OF shuffle_steps(1)] emitted_only_weaken [OF shuffle_steps(2)],
      auto simp: is_shuffle_op_def is_local_reference_frame_op_def split: op.splits)+

lemma no_reference_frame_script:
  assumes "is_critical_native c"
  shows "emitted_only (\<lambda>x. \<not> is_local_reference_frame_op x) (run (script c))"
  by (rule emitted_only_run)
     (auto simp: script_def prologue_def main_path_def slow_paths_def
        intro: no_reference_frame_steps [OF assms] no_reference_frame_shuffle)

lemma scratch_regs_steps:
  shows "hoare (scratch_regs_set c) (step_4_2 c) (scratch_regs_set c)"
    and "hoare (scratch_regs_set c) (step_4_3 c) (scratch_regs_set c)"
    and "hoare (scratch_regs_set c) (step_4_4 c) (scratch_regs_set c)"
    and "hoare (scratch_regs_set c) (step_5_1 c) (scratch_regs_set c)"
    and "hoare (scratch_regs_set c) (step_5_2 c) (scratch_regs_set c)"
    and "hoare (scratch_regs_set c) (step_5_3 c) (scratch_regs_set c)"
    and "hoare (scratch_regs_set c) (step_5_4 c) (scratch_regs_set c)"
    and "hoare (scratch_regs_set c) (step_5_5 c) (scratch_regs_set c)"
    and "hoare (scratch_regs_set c) (step_5_6 c) (scratch_regs_set c)"
  by (simp add: hoare_def step_4_2_def step_4_3_def step_4_4_def step_5_1_def step_5_2_def step_5_3_def step_5_4_def step_5_5_def step_5_6_def after_simps shorthand_defs SetNativeParameter_def scratch_regs_set_def)+

lemma scratch_regs_step_4_1: "hoare (scratch_regs_set c) (step_4_1 c) (scratch_regs_set c)"
  unfolding hoare_def
proof (intro allI impI)
  fix s assume "scratch_regs_set c s"
  with step_4_1_after [of c s] show "after (step_4_1 c) (scratch_regs_set c) s"
    by (auto simp: after_def scratch_regs_set_def shuffle_frame_def split: sum.splits)
qed

lemma step_3_push:
  "\<not> is_critical_native c \<Longrightarrow>
   after (step_3 c)
     (\<lambda>s'. scratch_regs_set c s'
        \<and> jni_asm s' = jni_asm s
            @ [LoadRawPtrFromThread (scratch_env_reg c) (JniEnvOffset (kPointerSize c))]
            @ local_reference_frame_push c) s"
  by (simp add: step_3_def after_simps scratch_regs_set_def scratch_env_reg_def
      scratch_cookie_reg_def scratch_temp_reg_def local_reference_frame_push_def)

lemma step_6_pop:
  "\<not> is_critical_native c \<Longrightarrow> scratch_regs_set c s \<Longrightarrow>
   after (step_6 c) (\<lambda>s'. jni_asm s' = jni_asm s @ local_reference_frame_pop c) s"
  by (simp add: step_6_def after_simps scratch_regs_set_def local_reference_frame_pop_def)

lemma script_at_3_and_6:
  "script c = [step_1_1 c, step_1_2 c, step_1_3 c, step_2_1 c, step_2_2 c, step_2_3 c] @ step_3 c # [step_4_1 c, step_4_2 c, step_4_3 c, step_4_4 c, step_5_1 c, step_5_2 c, step_5_3 c, step_5_4 c, step_5_5 c, step_5_6 c] @ step_6 c # [step_7_1 c, step_7_2 c, step_7_3 c, step_7_4 c, step_8_1 c, step_8_2 c, step_8_3_rewind c, step_8_3_deliver c, step_9 c]"
  by (simp add: script_def prologue_def main_path_def slow_paths_def)

lemma scratch_regs_between: "hoare (scratch_regs_set c) (run [step_4_1 c, step_4_2 c, step_4_3 c, step_4_4 c, step_5_1 c, step_5_2 c, step_5_3 c, step_5_4 c, step_5_5 c, step_5_6 c]) (scratch_regs_set c)"
  by (rule hoare_invariant) (auto intro: scratch_regs_steps scratch_regs_step_4_1)

lemma push_has_frame_op:
  "contains_sequence (local_reference_frame_push c) code \<Longrightarrow>
   list_ex is_local_reference_frame_op code"
  by (auto simp: contains_sequence_def local_reference_frame_push_def
      PushLocalReferenceFrame_def is_local_reference_frame_op_def)

lemma pop_has_frame_op:
  "contains_sequence (local_reference_frame_pop c) code \<Longrightarrow>
   list_ex is_local_reference_frame_op code"
  by (auto simp: contains_sequence_def local_reference_frame_pop_def
      PopLocalReferenceFrame_def is_local_reference_frame_op_def)

text \<open>
  C5. The script of a compile contains the push of the local reference frame exactly when
  it contains the pop, and exactly when the method is not critical native; a critical
  native script has no instruction of either.
\<close>

theorem local_reference_frame_push_and_pop:
  assumes "ArtJniCompileMethodInternal env ps inp = Inr m"
  shows "(contains_sequence (local_reference_frame_push (make_context env ps inp)) (compiled_code m)
          \<longleftrightarrow> contains_sequence (local_reference_frame_pop (make_context env ps inp)) (compiled_code m))
    \<and> (contains_sequence (local_reference_frame_push (make_context env ps inp)) (compiled_code m)
          \<longleftrightarrow> \<not> is_critical_native (make_context env ps inp))
    \<and> (list_ex is_local_reference_frame_op (compiled_code m)
          \<longleftrightarrow> \<not> is_critical_native (make_context env ps inp))"
proof -
  let ?c = "make_context env ps inp"
  from compiled_emission [OF assms] obtain s where
    em: "emission env ps inp = Inr s" and code: "compiled_code m = jni_asm s"
    by blast
  note run = emission_script(1) [OF em]
  show ?thesis
  proof (cases "is_critical_native ?c")
    case True
    from emitted_onlyD [OF no_reference_frame_script [OF True] run] code
    have none: "list_all (\<lambda>x. \<not> is_local_reference_frame_op x) (compiled_code m)"
      by (simp add: initial_locals_def)
    then have no: "\<not> list_ex is_local_reference_frame_op (compiled_code m)"
      by (simp add: not_list_ex)
    with push_has_frame_op [of ?c "compiled_code m"]
    have "\<not> contains_sequence (local_reference_frame_push ?c) (compiled_code m)"
      by blast
    moreover from no pop_has_frame_op [of ?c "compiled_code m"]
    have "\<not> contains_sequence (local_reference_frame_pop ?c) (compiled_code m)"
      by blast
    ultimately show ?thesis
      using True no by simp
  next
    case False
    from run obtain s1 s2 s3 s4 where
      r1: "run [step_1_1 ?c, step_1_2 ?c, step_1_3 ?c, step_2_1 ?c, step_2_2 ?c, step_2_3 ?c] initial_locals = Inr s1" and
      r2: "step_3 ?c s1 = Inr s2" and
      r3: "run [step_4_1 ?c, step_4_2 ?c, step_4_3 ?c, step_4_4 ?c, step_5_1 ?c, step_5_2 ?c, step_5_3 ?c, step_5_4 ?c, step_5_5 ?c, step_5_6 ?c] s2 = Inr s3" and
      r4: "step_6 ?c s3 = Inr s4" and
      r5: "run [step_7_1 ?c, step_7_2 ?c, step_7_3 ?c, step_7_4 ?c, step_8_1 ?c, step_8_2 ?c, step_8_3_rewind ?c, step_8_3_deliver ?c, step_9 ?c] s4 = Inr s"
      unfolding script_at_3_and_6 [of ?c]
      by (auto dest!: run_append_Inr split: sum.splits)
    from afterD [OF step_3_push [OF False] r2]
    have regs2: "scratch_regs_set ?c s2" and
      a2: "jni_asm s2 = jni_asm s1
            @ [LoadRawPtrFromThread (scratch_env_reg ?c) (JniEnvOffset (kPointerSize ?c))]
            @ local_reference_frame_push ?c"
      by simp_all
    from hoareD [OF scratch_regs_between regs2 r3] have regs3: "scratch_regs_set ?c s3" .
    have "emitted_only (\<lambda>x. True) (run [step_4_1 ?c, step_4_2 ?c, step_4_3 ?c, step_4_4 ?c, step_5_1 ?c, step_5_2 ?c, step_5_3 ?c, step_5_4 ?c, step_5_5 ?c, step_5_6 ?c])"
      by (rule appending_run [of _ ?c]) (simp add: script_at_3_and_6 [of ?c])
    from emitted_onlyD [OF this r3] obtain E3 where a3: "jni_asm s3 = jni_asm s2 @ E3"
      by blast
    from afterD [OF step_6_pop [OF False regs3] r4]
    have a4: "jni_asm s4 = jni_asm s3 @ local_reference_frame_pop ?c" .
    have "emitted_only (\<lambda>x. True) (run [step_7_1 ?c, step_7_2 ?c, step_7_3 ?c, step_7_4 ?c, step_8_1 ?c, step_8_2 ?c, step_8_3_rewind ?c, step_8_3_deliver ?c, step_9 ?c])"
      by (rule appending_run [of _ ?c]) (simp add: script_at_3_and_6 [of ?c])
    from emitted_onlyD [OF this r5] obtain E5 where a5: "jni_asm s = jni_asm s4 @ E5"
      by blast
    have push: "contains_sequence (local_reference_frame_push ?c) (compiled_code m)"
      unfolding contains_sequence_def code a5 a4 a3 a2
      by (rule exI [where x = "jni_asm s1
            @ [LoadRawPtrFromThread (scratch_env_reg ?c) (JniEnvOffset (kPointerSize ?c))]"],
          rule exI [where x = "E3 @ local_reference_frame_pop ?c @ E5"]) simp
    have pop: "contains_sequence (local_reference_frame_pop ?c) (compiled_code m)"
      unfolding contains_sequence_def code a5 a4
      by (rule exI [where x = "jni_asm s3"], rule exI [where x = E5]) simp
    from push_has_frame_op [OF push] push pop False show ?thesis by simp
  qed
qed

theorem local_reference_frame_push_and_pop_witness:
  "\<exists>m. ArtJniCompileMethodInternal (test_env True) k64 (test_input 0x108 ''VLJ'') = Inr m
     \<and> contains_sequence
          (local_reference_frame_push (make_context (test_env True) k64 (test_input 0x108 ''VLJ'')))
          (compiled_code m)
     \<and> contains_sequence
          (local_reference_frame_pop (make_context (test_env True) k64 (test_input 0x108 ''VLJ'')))
          (compiled_code m)"
proof -
  obtain m where m: "ArtJniCompileMethodInternal (test_env True) k64 (test_input 0x108 ''VLJ'') = Inr m"
    using not_isl_Inr [OF test_compile_static] by blast
  have c: "\<not> is_critical_native (make_context (test_env True) k64 (test_input 0x108 ''VLJ''))"
    by (simp add: make_context_def test_env_def test_input_def Let_def)
  from local_reference_frame_push_and_pop [OF m] c m show ?thesis by blast
qed

subsection \<open>The native call and the epilogue\<close>

lemma no_RemoveFrame_steps:
  shows "emitted_only (\<lambda>x. \<not> is_RemoveFrame x) (step_1_1 c)"
    and "emitted_only (\<lambda>x. \<not> is_RemoveFrame x) (step_1_2 c)"
    and "emitted_only (\<lambda>x. \<not> is_RemoveFrame x) (step_1_3 c)"
    and "emitted_only (\<lambda>x. \<not> is_RemoveFrame x) (step_2_1 c)"
    and "emitted_only (\<lambda>x. \<not> is_RemoveFrame x) (step_2_3 c)"
    and "emitted_only (\<lambda>x. \<not> is_RemoveFrame x) (step_3 c)"
    and "emitted_only (\<lambda>x. \<not> is_RemoveFrame x) (step_4_2 c)"
    and "emitted_only (\<lambda>x. \<not> is_RemoveFrame x) (step_4_3 c)"
    and "emitted_only (\<lambda>x. \<not> is_RemoveFrame x) (step_4_4 c)"
    and "emitted_only (\<lambda>x. \<not> is_RemoveFrame x) (step_5_1 c)"
    and "emitted_only (\<lambda>x. \<not> is_RemoveFrame x) (step_5_2 c)"
    and "emitted_only (\<lambda>x. \<not> is_RemoveFrame x) (step_5_3 c)"
    and "emitted_only (\<lambda>x. \<not> is_RemoveFrame x) (step_5_4 c)"
    and "emitted_only (\<lambda>x. \<not> is_RemoveFrame x) (step_5_5 c)"
    and "emitted_only (\<lambda>x. \<not> is_RemoveFrame x) (step_5_6 c)"
    and "emitted_only (\<lambda>x. \<not> is_RemoveFrame x) (step_6 c)"
    and "emitted_only (\<lambda>x. \<not> is_RemoveFrame x) (step_7_1 c)"
    and "emitted_only (\<lambda>x. \<not> is_RemoveFrame x) (step_7_2 c)"
    and "emitted_only (\<lambda>x. \<not> is_RemoveFrame x) (step_7_3 c)"
    and "emitted_only (\<lambda>x. \<not> is_RemoveFrame x) (step_8_1 c)"
    and "emitted_only (\<lambda>x. \<not> is_RemoveFrame x) (step_8_2 c)"
    and "emitted_only (\<lambda>x. \<not> is_RemoveFrame x) (step_8_3_rewind c)"
    and "emitted_only (\<lambda>x. \<not> is_RemoveFrame x) (step_8_3_deliver c)"
    and "emitted_only (\<lambda>x. \<not> is_RemoveFrame x) (step_9 c)"
  by (rule emitted_onlyI, simp add: step_1_1_def step_1_2_def step_1_3_def step_2_1_def step_2_3_def step_3_def step_4_2_def step_4_3_def step_4_4_def step_5_1_def step_5_2_def step_5_3_def step_5_4_def step_5_5_def step_5_6_def step_6_def step_7_1_def step_7_2_def step_7_3_def step_8_1_def step_8_2_def step_8_3_rewind_def step_8_3_deliver_def step_9_def emitted_simps is_RemoveFrame_def)+

lemma no_RemoveFrame_shuffle:
  shows "emitted_only (\<lambda>x. \<not> is_RemoveFrame x) (step_2_2 c)"
    and "emitted_only (\<lambda>x. \<not> is_RemoveFrame x) (step_4_1 c)"
  by (rule emitted_only_weaken [OF shuffle_steps(1)] emitted_only_weaken [OF shuffle_steps(2)],
      auto simp: is_shuffle_op_def is_RemoveFrame_def split: op.splits)+

lemma no_native_entry_steps:
  shows "emitted_only (\<lambda>x. \<not> is_native_entry x) (step_1_1 c)"
    and "emitted_only (\<lambda>x. \<not> is_native_entry x) (step_1_2 c)"
    and "emitted_only (\<lambda>x. \<not> is_native_entry x) (step_1_3 c)"
    and "emitted_only (\<lambda>x. \<not> is_native_entry x) (step_2_1 c)"
    and "emitted_only (\<lambda>x. \<not> is_native_entry x) (step_2_3 c)"
    and "emitted_only (\<lambda>x. \<not> is_native_entry x) (step_3 c)"
    and "emitted_only (\<lambda>x. \<not> is_native_entry x) (step_4_2 c)"
    and "emitted_only (\<lambda>x. \<not> is_native_entry x) (step_4_4 c)"
    and "emitted_only (\<lambda>x. \<not> is_native_entry x) (step_5_1 c)"
    and "emitted_only (\<lambda>x. \<not> is_native_entry x) (step_5_2 c)"
    and "emitted_only (\<lambda>x. \<not> is_native_entry x) (step_5_3 c)"
    and "emitted_only (\<lambda>x. \<not> is_native_entry x) (step_5_4 c)"
    and "emitted_only (\<lambda>x. \<not> is_native_entry x) (step_5_5 c)"
    and "emitted_only (\<lambda>x. \<not> is_native_entry x) (step_5_6 c)"
    and "emitted_only (\<lambda>x. \<not> is_native_entry x) (step_6 c)"
    and "emitted_only (\<lambda>x. \<not> is_native_entry x) (step_7_1 c)"
    and "emitted_only (\<lambda>x. \<not> is_native_entry x) (step_7_2 c)"
    and "emitted_only (\<lambda>x. \<not> is_native_entry x) (step_7_3 c)"
    and "emitted_only (\<lambda>x. \<not> is_native_entry x) (step_7_4 c)"
    and "emitted_only (\<lambda>x. \<not> is_native_entry x) (step_8_1 c)"
    and "emitted_only (\<lambda>x. \<not> is_native_entry x) (step_8_2 c)"
    and "emitted_only (\<lambda>x. \<not> is_native_entry x) (step_8_3_rewind c)"
    and "emitted_only (\<lambda>x. \<not> is_native_entry x) (step_8_3_deliver c)"
    and "emitted_only (\<lambda>x. \<not> is_native_entry x) (step_9 c)"
  by (rule emitted_onlyI, simp add: step_1_1_def step_1_2_def step_1_3_def step_2_1_def step_2_3_def step_3_def step_4_2_def step_4_4_def step_5_1_def step_5_2_def step_5_3_def step_5_4_def step_5_5_def step_5_6_def step_6_def step_7_1_def step_7_2_def step_7_3_def step_7_4_def step_8_1_def step_8_2_def step_8_3_rewind_def step_8_3_deliver_def step_9_def emitted_simps is_native_entry_def is_EntryPointFromJni_def)+

lemma no_native_entry_shuffle:
  shows "emitted_only (\<lambda>x. \<not> is_native_entry x) (step_2_2 c)"
    and "emitted_only (\<lambda>x. \<not> is_native_entry x) (step_4_1 c)"
  by (rule emitted_only_weaken [OF shuffle_steps(1)] emitted_only_weaken [OF shuffle_steps(2)],
      auto simp: is_shuffle_op_def is_native_entry_def split: op.splits)+

lemma emitted_only_both:
  "emitted_only A a \<Longrightarrow> emitted_only B a \<Longrightarrow> emitted_only (\<lambda>x. A x \<and> B x) a"
  unfolding emitted_only_def
proof (intro allI impI)
  fix s s'
  assume A: "\<forall>s s'. a s = Inr s' \<longrightarrow> (\<exists>E. jni_asm s' = jni_asm s @ E \<and> list_all A E)"
    and B: "\<forall>s s'. a s = Inr s' \<longrightarrow> (\<exists>E. jni_asm s' = jni_asm s @ E \<and> list_all B E)"
    and r: "a s = Inr s'"
  from A r obtain E where 1: "jni_asm s' = jni_asm s @ E" "list_all A E" by blast
  from B r obtain E' where 2: "jni_asm s' = jni_asm s @ E'" "list_all B E'" by blast
  from 1 2 have "E' = E" by simp
  with 1 2 show "\<exists>E. jni_asm s' = jni_asm s @ E \<and> list_all (\<lambda>x. A x \<and> B x) E"
    by (auto simp: list_all_iff)
qed

lemma frame_step_1_1: "hoare (\<lambda>s. True) (step_1_1 c) (frame_at_rest c)"
  by (simp add: hoare_def step_1_1_def after_simps frame_at_rest_def)

lemma frame_at_rest_steps:
  shows "hoare (frame_at_rest c) (step_1_2 c) (frame_at_rest c)"
    and "hoare (frame_at_rest c) (step_1_3 c) (frame_at_rest c)"
    and "hoare (frame_at_rest c) (step_7_2 c) (frame_at_rest c)"
    and "hoare (frame_at_rest c) (step_7_3 c) (frame_at_rest c)"
  by (simp add: hoare_def step_1_2_def step_1_3_def step_7_2_def step_7_3_def after_simps shorthand_defs SetNativeParameter_def frame_at_rest_def)+

lemma frame_step_2_1: "hoare (frame_at_rest c) (step_2_1 c) (frame_with_out_args c)"
  by (simp add: hoare_def step_2_1_def after_simps frame_at_rest_def frame_with_out_args_def)

lemma frame_step_7_1: "hoare (frame_with_out_args c) (step_7_1 c) (frame_at_rest c)"
  by (simp add: hoare_def step_7_1_def after_simps frame_at_rest_def frame_with_out_args_def)

lemma frame_with_out_args_steps:
  shows "hoare (frame_with_out_args c) (step_2_3 c) (frame_with_out_args c)"
    and "hoare (frame_with_out_args c) (step_3 c) (frame_with_out_args c)"
    and "hoare (frame_with_out_args c) (step_4_2 c) (frame_with_out_args c)"
    and "hoare (frame_with_out_args c) (step_4_3 c) (frame_with_out_args c)"
    and "hoare (frame_with_out_args c) (step_4_4 c) (frame_with_out_args c)"
    and "hoare (frame_with_out_args c) (step_5_1 c) (frame_with_out_args c)"
    and "hoare (frame_with_out_args c) (step_5_2 c) (frame_with_out_args c)"
    and "hoare (frame_with_out_args c) (step_5_3 c) (frame_with_out_args c)"
    and "hoare (frame_with_out_args c) (step_5_4 c) (frame_with_out_args c)"
    and "hoare (frame_with_out_args c) (step_5_5 c) (frame_with_out_args c)"
    and "hoare (frame_with_out_args c) (step_5_6 c) (frame_with_out_args c)"
    and "hoare (frame_with_out_args c) (step_6 c) (frame_with_out_args c)"
  by (simp add: hoare_def step_2_3_def step_3_def step_4_2_def step_4_3_def step_4_4_def step_5_1_def step_5_2_def step_5_3_def step_5_4_def step_5_5_def step_5_6_def step_6_def after_simps shorthand_defs SetNativeParameter_def frame_with_out_args_def PushLocalReferenceFrame_def PopLocalReferenceFrame_def)+

lemma frame_with_out_args_shuffle:
  shows "hoare (frame_with_out_args c) (step_2_2 c) (frame_with_out_args c)"
    and "hoare (frame_with_out_args c) (step_4_1 c) (frame_with_out_args c)"
proof -
  show "hoare (frame_with_out_args c) (step_2_2 c) (frame_with_out_args c)"
    unfolding hoare_def
  proof (intro allI impI)
    fix s assume "frame_with_out_args c s"
    with step_2_2_after [of c s] show "after (step_2_2 c) (frame_with_out_args c) s"
      by (auto simp: after_def frame_with_out_args_def shuffle_frame_def split: sum.splits)
  qed
  show "hoare (frame_with_out_args c) (step_4_1 c) (frame_with_out_args c)"
    unfolding hoare_def
  proof (intro allI impI)
    fix s assume "frame_with_out_args c s"
    with step_4_1_after [of c s] show "after (step_4_1 c) (frame_with_out_args c) s"
      by (auto simp: after_def frame_with_out_args_def shuffle_frame_def split: sum.splits)
  qed
qed

lemma main_path_segments:
  "main_path c = [step_1_2 c, step_1_3 c] @ step_2_1 c # [step_2_2 c, step_2_3 c, step_3 c, step_4_1 c, step_4_2 c, step_4_3 c, step_4_4 c, step_5_1 c, step_5_2 c, step_5_3 c, step_5_4 c, step_5_5 c, step_5_6 c, step_6 c] @ step_7_1 c # [step_7_2 c, step_7_3 c]"
  by (simp add: main_path_def)

lemma frame_before_RemoveFrame:
  "hoare (\<lambda>s. True) (run (prologue c @ main_path c)) (frame_at_rest c)"
  unfolding prologue_def main_path_segments
  apply (rule hoare_run_append [where R = "frame_at_rest c"])
   apply (rule hoare_run_Cons [OF frame_step_1_1 hoare_run_Nil])
  apply (rule hoare_run_append [where R = "frame_at_rest c"])
   apply (rule hoare_invariant, auto intro: frame_at_rest_steps)[1]
  apply (rule hoare_run_Cons [OF frame_step_2_1])
  apply (rule hoare_run_append [where R = "frame_with_out_args c"])
   apply (rule hoare_invariant, auto intro: frame_with_out_args_steps frame_with_out_args_shuffle)[1]
  apply (rule hoare_run_Cons [OF frame_step_7_1])
  apply (rule hoare_invariant, auto intro: frame_at_rest_steps)
  done

lemma step_4_3_entry:
  "after (step_4_3 c)
     (\<lambda>s'. jni_asm s' = jni_asm s @
        [if is_critical_native c
         then (if jni_UseTailCall (main_jni_conv c)
               then Jump (HiddenArgumentRegister (main_jni_conv c)) (jni_entrypoint_offset c)
               else Call (HiddenArgumentRegister (main_jni_conv c)) (jni_entrypoint_offset c))
         else Call (method_register s) (jni_entrypoint_offset c)]) s"
  by (simp add: step_4_3_def after_simps)

lemma step_7_4_remove:
  "after (step_7_4 c)
     (\<lambda>s'. jni_asm s' = jni_asm s @
        (if \<not> is_critical_native c \<or> \<not> jni_UseTailCall (main_jni_conv c)
         then [RemoveFrame (current_frame_size s) (callee_save_regs c) (\<not> is_critical_native c)]
         else [])) s"
  by (simp add: step_7_4_def after_simps)

lemma run_seq:
  "run as s = Inr s1 \<Longrightarrow> a s1 = Inr s2 \<Longrightarrow> run bs s2 = Inr s3 \<Longrightarrow>
   run (as @ a # bs) s = Inr s3"
  by (simp add: run_append)

lemma script_at_4_3_and_7_4:
  "script c = [step_1_1 c, step_1_2 c, step_1_3 c, step_2_1 c, step_2_2 c, step_2_3 c, step_3 c, step_4_1 c, step_4_2 c] @ step_4_3 c # [step_4_4 c, step_5_1 c, step_5_2 c, step_5_3 c, step_5_4 c, step_5_5 c, step_5_6 c, step_6 c, step_7_1 c, step_7_2 c, step_7_3 c] @ step_7_4 c # [step_8_1 c, step_8_2 c, step_8_3_rewind c, step_8_3_deliver c, step_9 c]"
  by (simp add: script_def prologue_def main_path_def slow_paths_def)

lemma before_7_4: "prologue c @ main_path c = [step_1_1 c, step_1_2 c, step_1_3 c, step_2_1 c, step_2_2 c, step_2_3 c, step_3 c, step_4_1 c, step_4_2 c] @ step_4_3 c # [step_4_4 c, step_5_1 c, step_5_2 c, step_5_3 c, step_5_4 c, step_5_5 c, step_5_6 c, step_6 c, step_7_1 c, step_7_2 c, step_7_3 c]"
  by (simp add: prologue_def main_path_def)

text \<open>
  C6. A critical native compile under the tail-call convention reaches the native code by
  \<^verbatim>\<open>Jump(hidden_argument_register, entrypoint_offset)\<close>, with no \<^verbatim>\<open>Call\<close> of the entrypoint and no
  \<^verbatim>\<open>RemoveFrame\<close>. Every other compile calls the entrypoint and emits one
  \<^verbatim>\<open>RemoveFrame(current_frame_size, callee_saves, may_suspend)\<close>, where \<^verbatim>\<open>may_suspend\<close> is
  "not critical native" and \<^verbatim>\<open>current_frame_size\<close> is back at the size of the frame that
  \<^verbatim>\<open>BuildFrame\<close> built.
\<close>

theorem native_entry_and_RemoveFrame:
  assumes "ArtJniCompileMethodInternal env ps inp = Inr m"
  shows "(is_critical_native (make_context env ps inp)
            \<and> jni_UseTailCall (main_jni_conv (make_context env ps inp)) \<longrightarrow>
          filter is_native_entry (compiled_code m) =
            [Jump (HiddenArgumentRegister (main_jni_conv (make_context env ps inp)))
               (jni_entrypoint_offset (make_context env ps inp))]
          \<and> filter is_RemoveFrame (compiled_code m) = [])
    \<and> (\<not> (is_critical_native (make_context env ps inp)
            \<and> jni_UseTailCall (main_jni_conv (make_context env ps inp))) \<longrightarrow>
          filter is_RemoveFrame (compiled_code m) =
            [RemoveFrame
               (if is_critical_native (make_context env ps inp)
                then main_out_arg_size (make_context env ps inp)
                else managed_frame_size (make_context env ps inp))
               (callee_save_regs (make_context env ps inp))
               (\<not> is_critical_native (make_context env ps inp))]
          \<and> (\<exists>r. filter is_native_entry (compiled_code m) =
                [Call r (jni_entrypoint_offset (make_context env ps inp))]))"
proof -
  let ?c = "make_context env ps inp"
  from compiled_emission [OF assms] obtain s where
    em: "emission env ps inp = Inr s" and code: "compiled_code m = jni_asm s"
    by blast
  from emission_script(1) [OF em] obtain s1 s2 s3 s4 where
    r1: "run [step_1_1 ?c, step_1_2 ?c, step_1_3 ?c, step_2_1 ?c, step_2_2 ?c, step_2_3 ?c, step_3 ?c, step_4_1 ?c, step_4_2 ?c] initial_locals = Inr s1" and
    r2: "step_4_3 ?c s1 = Inr s2" and
    r3: "run [step_4_4 ?c, step_5_1 ?c, step_5_2 ?c, step_5_3 ?c, step_5_4 ?c, step_5_5 ?c, step_5_6 ?c, step_6 ?c, step_7_1 ?c, step_7_2 ?c, step_7_3 ?c] s2 = Inr s3" and
    r4: "step_7_4 ?c s3 = Inr s4" and
    r5: "run [step_8_1 ?c, step_8_2 ?c, step_8_3_rewind ?c, step_8_3_deliver ?c, step_9 ?c] s4 = Inr s"
    unfolding script_at_4_3_and_7_4 [of ?c]
    by (auto dest!: run_append_Inr split: sum.splits)
  have "run (prologue ?c @ main_path ?c) initial_locals = Inr s3"
    unfolding before_7_4 using r1 r2 r3 by (rule run_seq)
  from hoareD [OF frame_before_RemoveFrame _ this]
  have size3: "current_frame_size s3 =
      (if is_critical_native ?c then main_out_arg_size ?c else managed_frame_size ?c)"
    by (simp add: frame_at_rest_def)
  have a: "emitted_only (\<lambda>x. \<not> is_RemoveFrame x \<and> \<not> is_native_entry x) (run [step_1_1 ?c, step_1_2 ?c, step_1_3 ?c, step_2_1 ?c, step_2_2 ?c, step_2_3 ?c, step_3 ?c, step_4_1 ?c, step_4_2 ?c])"
    by (rule emitted_only_run)
       (auto intro: emitted_only_both no_RemoveFrame_steps no_RemoveFrame_shuffle
          no_native_entry_steps no_native_entry_shuffle)
  have b: "emitted_only (\<lambda>x. \<not> is_RemoveFrame x \<and> \<not> is_native_entry x) (run [step_4_4 ?c, step_5_1 ?c, step_5_2 ?c, step_5_3 ?c, step_5_4 ?c, step_5_5 ?c, step_5_6 ?c, step_6 ?c, step_7_1 ?c, step_7_2 ?c, step_7_3 ?c])"
    by (rule emitted_only_run)
       (auto intro: emitted_only_both no_RemoveFrame_steps no_RemoveFrame_shuffle
          no_native_entry_steps no_native_entry_shuffle)
  have c: "emitted_only (\<lambda>x. \<not> is_RemoveFrame x \<and> \<not> is_native_entry x) (run [step_8_1 ?c, step_8_2 ?c, step_8_3_rewind ?c, step_8_3_deliver ?c, step_9 ?c])"
    by (rule emitted_only_run)
       (auto intro: emitted_only_both no_RemoveFrame_steps no_RemoveFrame_shuffle
          no_native_entry_steps no_native_entry_shuffle)
  from emitted_onlyD [OF a r1] obtain E1 where
    e1: "jni_asm s1 = E1" "filter is_RemoveFrame E1 = []" "filter is_native_entry E1 = []"
    by (auto simp: initial_locals_def list_all_iff filter_empty_conv)
  from emitted_onlyD [OF b r3] obtain E3 where
    e3: "jni_asm s3 = jni_asm s2 @ E3" "filter is_RemoveFrame E3 = []" "filter is_native_entry E3 = []"
    by (auto simp: list_all_iff filter_empty_conv)
  from emitted_onlyD [OF c r5] obtain E5 where
    e5: "jni_asm s = jni_asm s4 @ E5" "filter is_RemoveFrame E5 = []" "filter is_native_entry E5 = []"
    by (auto simp: list_all_iff filter_empty_conv)
  note e2 = afterD [OF step_4_3_entry r2]
  note e4 = afterD [OF step_7_4_remove r4]
  have rf: "filter is_RemoveFrame (compiled_code m) =
      (if \<not> is_critical_native ?c \<or> \<not> jni_UseTailCall (main_jni_conv ?c)
       then [RemoveFrame (current_frame_size s3) (callee_save_regs ?c) (\<not> is_critical_native ?c)]
       else [])"
    unfolding code e5(1) e4 e3(1) e2 e1(1)
    using e1 e3 e5
    by (simp add: is_RemoveFrame_def)
  have ne: "filter is_native_entry (compiled_code m) =
      [if is_critical_native ?c
       then (if jni_UseTailCall (main_jni_conv ?c)
             then Jump (HiddenArgumentRegister (main_jni_conv ?c)) (jni_entrypoint_offset ?c)
             else Call (HiddenArgumentRegister (main_jni_conv ?c)) (jni_entrypoint_offset ?c))
       else Call (method_register s1) (jni_entrypoint_offset ?c)]"
    unfolding code e5(1) e4 e3(1) e2 e1(1)
    using e1 e3 e5
    by (simp add: is_native_entry_def is_EntryPointFromJni_def jni_entrypoint_offset_def)
  from rf ne size3 show ?thesis
    by auto
qed

theorem native_entry_and_RemoveFrame_witness:
  "\<exists>m. ArtJniCompileMethodInternal (test_env True) k64 (test_input 0x100108 ''IJ'') = Inr m
     \<and> is_critical_native (make_context (test_env True) k64 (test_input 0x100108 ''IJ''))
     \<and> jni_UseTailCall (main_jni_conv (make_context (test_env True) k64 (test_input 0x100108 ''IJ'')))
     \<and> filter is_native_entry (compiled_code m) =
          [Jump (Register 15) (OffsetMember (EntryPointFromJniOffset k64))]
     \<and> filter is_RemoveFrame (compiled_code m) = []"
proof -
  obtain m where m: "ArtJniCompileMethodInternal (test_env True) k64 (test_input 0x100108 ''IJ'') = Inr m"
    using not_isl_Inr [OF test_compile_critical] by blast
  have c: "is_critical_native (make_context (test_env True) k64 (test_input 0x100108 ''IJ''))
      \<and> jni_UseTailCall (main_jni_conv (make_context (test_env True) k64 (test_input 0x100108 ''IJ'')))"
    by (simp add: make_context_def test_env_def test_input_def Let_def test_jni_conv_def)
  from native_entry_and_RemoveFrame [OF m] c m show ?thesis
    by (simp add: make_context_def test_env_def test_input_def Let_def test_jni_conv_def
        HiddenArgumentRegister_def jni_entrypoint_offset_def)
qed

subsection \<open>The spill plan of step 2.2\<close>















lemma test_normal_native:
  "\<not> is_critical_native (make_context (test_env True) k64 (test_input 0x108 ''VLJ''))
   \<and> \<not> is_fast_native (make_context (test_env True) k64 (test_input 0x108 ''VLJ''))"
  by (simp add: make_context_def test_env_def test_input_def Let_def)


subsection \<open>The liveness of \<^verbatim>\<open>method_register\<close>\<close>

lemma walk_append: "walk (es @ fs) = foldl walk_step (walk es) fs"
  by (simp add: walk_def)

lemma reads_append: "reads_while_live (es @ fs) = (reads_while_live es \<and> list_all read_while_live fs)"
  by (simp add: reads_while_live_def)

lemma not_IsNoRegister: "(\<not> IsNoRegister r) = IsRegister r"
  by (cases r) simp_all

lemma IsNoRegister_iff: "IsNoRegister r = (\<not> IsRegister r)"
  by (cases r) simp_all

lemma IsRegister_CoreRegisterWithSize:
  "IsRegister r \<Longrightarrow> IsRegister (CoreRegisterWithSize env r n)"
  by (cases r) simp_all

lemmas log_simps = after_simps shorthand_defs SetNativeParameter_def
  PushLocalReferenceFrame_def PopLocalReferenceFrame_def history_ok_def never_live_def
  walk_append reads_append walk_step_def read_while_live_def last_emitted_def
  clobbering_call_def is_JniMethodStart_call_def is_native_entry_def is_EntryPointFromJni_def
  called_entrypoint_def is_JniMethodStart_def GetJniEntrypointThreadOffset_def jni_end_def
  jni_entrypoint_offset_def MethodRegister_def CurrentParamRegister_def not_IsNoRegister

lemma never_live_steps:
  assumes "is_critical_native c"
  shows "hoare (never_live) (step_1_2 c) (never_live)"
    and "hoare (never_live) (step_1_3 c) (never_live)"
    and "hoare (never_live) (step_2_1 c) (never_live)"
    and "hoare (never_live) (step_2_3 c) (never_live)"
    and "hoare (never_live) (step_3 c) (never_live)"
    and "hoare (never_live) (step_4_2 c) (never_live)"
    and "hoare (never_live) (step_4_3 c) (never_live)"
    and "hoare (never_live) (step_4_4 c) (never_live)"
    and "hoare (never_live) (step_5_1 c) (never_live)"
    and "hoare (never_live) (step_5_2 c) (never_live)"
    and "hoare (never_live) (step_5_3 c) (never_live)"
    and "hoare (never_live) (step_5_4 c) (never_live)"
    and "hoare (never_live) (step_5_5 c) (never_live)"
    and "hoare (never_live) (step_5_6 c) (never_live)"
    and "hoare (never_live) (step_6 c) (never_live)"
    and "hoare (never_live) (step_7_1 c) (never_live)"
    and "hoare (never_live) (step_7_2 c) (never_live)"
    and "hoare (never_live) (step_7_3 c) (never_live)"
    and "hoare (never_live) (step_7_4 c) (never_live)"
    and "hoare (never_live) (step_8_1 c) (never_live)"
    and "hoare (never_live) (step_8_2 c) (never_live)"
    and "hoare (never_live) (step_8_3_rewind c) (never_live)"
    and "hoare (never_live) (step_8_3_deliver c) (never_live)"
    and "hoare (never_live) (step_9 c) (never_live)"
  by (simp add: assms hoare_def step_1_2_def step_1_3_def step_2_1_def step_2_3_def step_3_def step_4_2_def step_4_3_def step_4_4_def step_5_1_def step_5_2_def step_5_3_def step_5_4_def step_5_5_def step_5_6_def step_6_def step_7_1_def step_7_2_def step_7_3_def step_7_4_def step_8_1_def step_8_2_def step_8_3_rewind_def step_8_3_deliver_def step_9_def log_simps)+

lemma never_live_step_1_1:
  "is_critical_native c \<Longrightarrow>
   hoare (\<lambda>s. jni_asm s = [] \<and> method_register_log s = []) (step_1_1 c) never_live"
  by (simp add: hoare_def step_1_1_def log_simps)

lemma never_live_shuffle:
  assumes "is_critical_native c"
  shows "hoare never_live (step_2_2 c) never_live"
    and "hoare never_live (step_4_1 c) never_live"
proof -
  show "hoare never_live (step_2_2 c) never_live"
    using assms by (simp add: hoare_def step_2_2_def log_simps)
  show "hoare never_live (step_4_1 c) never_live"
    unfolding hoare_def
    apply (simp add: assms step_4_1_def log_simps)
    apply (intro allI conjI impI after_move_loop)
    apply (simp_all add: log_simps loop_frame_def)
    done
qed

lemma live_step_1_1:
  "\<not> is_critical_native c \<Longrightarrow>
   hoare (\<lambda>s. jni_asm s = [] \<and> method_register_log s = []) (step_1_1 c) (live_in c)"
  by (simp add: hoare_def step_1_1_def log_simps live_in_def walk_def reads_while_live_def)

lemma live_in_steps:
  assumes "\<not> is_critical_native c"
  shows "hoare (live_in c) (step_1_2 c) (live_in c)"
    and "hoare (live_in c) (step_1_3 c) (live_in c)"
    and "hoare (live_in c) (step_2_1 c) (live_in c)"
  by (simp add: assms hoare_def step_1_2_def step_1_3_def step_2_1_def log_simps live_in_def)+

lemma live_in_step_2_2:
  assumes "\<not> is_critical_native c"
  shows "hoare (live_in c) (step_2_2 c) (live_in c)"
  unfolding hoare_def
  apply (simp add: assms step_2_2_def log_simps live_in_def)
  apply (intro allI conjI impI after_spill_loop)
  apply (simp_all add: log_simps loop_frame_def live_in_def)
  done

lemma live_step_2_3:
  assumes "\<not> is_critical_native c"
  shows "hoare (live_in c) (step_2_3 c) (live_if_fast c)"
  by (simp add: assms hoare_def step_2_3_def log_simps live_in_def live_if_fast_def)

lemma live_step_3:
  assumes "\<not> is_critical_native c"
  shows "hoare (live_if_fast c) (step_3 c) (live_if_fast_temp c)"
  by (simp add: assms hoare_def step_3_def log_simps live_if_fast_def live_if_fast_temp_def)

lemmas shuffle_log_simps = after_simps shorthand_defs history_ok_def
  walk_append reads_append walk_step_def read_while_live_def
  clobbering_call_def is_JniMethodStart_call_def is_native_entry_def
  called_entrypoint_def MethodRegister_def CurrentParamRegister_def
  IsNoRegister_iff IsRegister_CoreRegisterWithSize IsCurrentParamOnStack_def

lemma live_step_4_1:
  assumes "\<not> is_critical_native c"
  shows "hoare (live_if_fast_temp c) (step_4_1 c) live_again"
  unfolding hoare_def
  apply (simp add: assms step_4_1_def shuffle_log_simps live_if_fast_def live_if_fast_temp_def
      live_again_def)
  apply (intro allI conjI impI after_move_loop)
  apply (simp_all add: shuffle_log_simps loop_frame_def live_again_def)
  done

lemma live_step_4_2:
  assumes "\<not> is_critical_native c"
  shows "hoare live_again (step_4_2 c) live_again"
  by (simp add: assms hoare_def step_4_2_def log_simps live_again_def)

lemma live_step_4_3:
  assumes "\<not> is_critical_native c"
  shows "hoare live_again (step_4_3 c) history_ok"
  by (simp add: assms hoare_def step_4_3_def log_simps live_again_def)

lemma history_steps:
  assumes "\<not> is_critical_native c"
  shows "hoare (history_ok) (step_4_4 c) (history_ok)"
    and "hoare (history_ok) (step_5_1 c) (history_ok)"
    and "hoare (history_ok) (step_5_2 c) (history_ok)"
    and "hoare (history_ok) (step_5_3 c) (history_ok)"
    and "hoare (history_ok) (step_5_4 c) (history_ok)"
    and "hoare (history_ok) (step_5_5 c) (history_ok)"
    and "hoare (history_ok) (step_5_6 c) (history_ok)"
    and "hoare (history_ok) (step_6 c) (history_ok)"
    and "hoare (history_ok) (step_7_1 c) (history_ok)"
    and "hoare (history_ok) (step_7_2 c) (history_ok)"
    and "hoare (history_ok) (step_7_3 c) (history_ok)"
    and "hoare (history_ok) (step_7_4 c) (history_ok)"
    and "hoare (history_ok) (step_8_1 c) (history_ok)"
    and "hoare (history_ok) (step_8_2 c) (history_ok)"
    and "hoare (history_ok) (step_8_3_rewind c) (history_ok)"
    and "hoare (history_ok) (step_8_3_deliver c) (history_ok)"
    and "hoare (history_ok) (step_9 c) (history_ok)"
  by (simp add: assms hoare_def step_4_4_def step_5_1_def step_5_2_def step_5_3_def step_5_4_def step_5_5_def step_5_6_def step_6_def step_7_1_def step_7_2_def step_7_3_def step_7_4_def step_8_1_def step_8_2_def step_8_3_rewind_def step_8_3_deliver_def step_9_def log_simps is_end_of_method_entrypoint_def)+

lemma script_for_history:
  "script c = step_1_1 c # [step_1_2 c, step_1_3 c, step_2_1 c, step_2_2 c] @ step_2_3 c # step_3 c # step_4_1 c # step_4_2 c
      # step_4_3 c # [step_4_4 c, step_5_1 c, step_5_2 c, step_5_3 c, step_5_4 c, step_5_5 c, step_5_6 c, step_6 c, step_7_1 c, step_7_2 c, step_7_3 c, step_7_4 c, step_8_1 c, step_8_2 c, step_8_3_rewind c, step_8_3_deliver c, step_9 c]"
  by (simp add: script_def prologue_def main_path_def slow_paths_def)

lemma history_of_critical_native:
  assumes "is_critical_native c"
  shows "hoare (\<lambda>s. jni_asm s = [] \<and> method_register_log s = []) (run (script c)) never_live"
  unfolding script_Cons
  apply (rule hoare_run_Cons [OF never_live_step_1_1 [OF assms]])
  apply (rule hoare_invariant)
  apply (auto simp: main_path_def slow_paths_def
      intro: never_live_steps [OF assms] never_live_shuffle [OF assms])
  done

lemma history_of_other_native:
  assumes "\<not> is_critical_native c"
  shows "hoare (\<lambda>s. jni_asm s = [] \<and> method_register_log s = []) (run (script c)) history_ok"
  unfolding script_for_history
  apply (rule hoare_run_Cons [OF live_step_1_1 [OF assms]])
  apply (rule hoare_run_append [where R = "live_in c"])
   apply (rule hoare_invariant)
   apply (auto intro: live_in_steps [OF assms] live_in_step_2_2 [OF assms])[1]
  apply (rule hoare_run_Cons [OF live_step_2_3 [OF assms]])
  apply (rule hoare_run_Cons [OF live_step_3 [OF assms]])
  apply (rule hoare_run_Cons [OF live_step_4_1 [OF assms]])
  apply (rule hoare_run_Cons [OF live_step_4_2 [OF assms]])
  apply (rule hoare_run_Cons [OF live_step_4_3 [OF assms]])
  apply (rule hoare_invariant)
  apply (auto intro: history_steps [OF assms])
  done

text \<open>
  C9, as amended. In a compile that is not critical native, \<^verbatim>\<open>method_register\<close> is read
  only while Live and goes from Live to Clobbered exactly after the \<^verbatim>\<open>JniMethodStart\<close> call
  and after the main native call. In a critical native compile it is empty from its
  initialisation on: its history is that assignment and one read, the method register
  operand of \<^verbatim>\<open>BuildFrame\<close>, which is then \<^verbatim>\<open>NoRegister\<close>.
\<close>

theorem method_register_history:
  assumes "emission env ps inp = Inr s"
  shows "if is_critical_native (make_context env ps inp)
    then method_register_log s = [Assigned NoRegister None, Read NoRegister]
    else method_register_claim s"
proof (cases "is_critical_native (make_context env ps inp)")
  case True
  from hoareD [OF history_of_critical_native [OF True] _ emission_script(1) [OF assms]]
  have "never_live s" by (simp add: initial_locals_def)
  with True show ?thesis by (simp add: never_live_def)
next
  case False
  from hoareD [OF history_of_other_native [OF False] _ emission_script(1) [OF assms]]
  have "history_ok s" by (simp add: initial_locals_def)
  with False show ?thesis
    by (simp add: history_ok_def clobbered_after_def method_register_claim_def)
qed

lemma test_emission_static:
  "\<not> isl (emission (test_env True) k64 (test_input 0x108 ''VLJ''))"
  by code_simp

theorem method_register_history_witness:
  "\<exists>s. emission (test_env True) k64 (test_input 0x108 ''VLJ'') = Inr s
     \<and> \<not> is_critical_native (make_context (test_env True) k64 (test_input 0x108 ''VLJ''))
     \<and> method_register_claim s"
proof -
  obtain s where s: "emission (test_env True) k64 (test_input 0x108 ''VLJ'') = Inr s"
    using not_isl_Inr [OF test_emission_static] by blast
  from method_register_history [OF s] test_normal_native s show ?thesis by auto
qed

text \<open>
  The claim as the specification words it fails for a critical native method: the one
  read of \<^verbatim>\<open>method_register\<close>, by \<^verbatim>\<open>BuildFrame\<close>, finds it empty.
\<close>

theorem method_register_read_counterexample:
  "\<not> isl (emission (test_env True) k64 (test_input 0x100108 ''IJ''))
   \<and> method_register_log (projr (emission (test_env True) k64 (test_input 0x100108 ''IJ'')))
       = [Assigned NoRegister None, Read NoRegister]
   \<and> \<not> reads_while_live
        (method_register_log (projr (emission (test_env True) k64 (test_input 0x100108 ''IJ''))))
   \<and> \<not> method_register_claim (projr (emission (test_env True) k64 (test_input 0x100108 ''IJ'')))"
  by code_simp

end
